theory Spec2Isabelle
  imports Main "HOL-Library.Sublist"
begin

section \<open>JavaScript strings\<close>

text \<open>
  A JavaScript string is a sequence of UTF-16 code units. The regular expressions of
  \<^verbatim>\<open>product-read.service.ts\<close> carry no \<^verbatim>\<open>u\<close> flag, so they and \<^verbatim>\<open>length\<close>
  work on code units; a code unit is modelled by its number.
\<close>

type_synonym jschar = nat
type_synonym jsstr = "jschar list"

text \<open>An ASCII literal as code units.\<close>

definition js :: "string \<Rightarrow> jsstr" where
  "js s = map of_char s"

text \<open>
  \<^verbatim>\<open>\s\<close> of a regular expression and the characters \<^verbatim>\<open>trim()\<close> strips are the same set:
  WhiteSpace and LineTerminator of ECMAScript.
\<close>

definition isSpace :: "jschar \<Rightarrow> bool" where
  "isSpace c \<longleftrightarrow>
     c = 9 \<or> c = 10 \<or> c = 11 \<or> c = 12 \<or> c = 13 \<or> c = 32 \<or> c = 160 \<or> c = 5760 \<or>
     (8192 \<le> c \<and> c \<le> 8202) \<or> c = 8232 \<or> c = 8233 \<or> c = 8239 \<or> c = 8287 \<or>
     c = 12288 \<or> c = 65279"

text \<open>The characters \<^verbatim>\<open>.\<close> does not match: LF, CR, U+2028, U+2029.\<close>

definition isLineTerminator :: "jschar \<Rightarrow> bool" where
  "isLineTerminator c \<longleftrightarrow> c = 10 \<or> c = 13 \<or> c = 8232 \<or> c = 8233"

text \<open>\<^verbatim>\<open>s.trim()\<close>.\<close>

definition trim :: "jsstr \<Rightarrow> jsstr" where
  "trim s = rev (dropWhile isSpace (rev (dropWhile isSpace s)))"

text \<open>\<^verbatim>\<open>s.replace(/\s+/g, ' ')\<close>: every maximal run of white space becomes one space.\<close>

function collapseSpaces :: "jsstr \<Rightarrow> jsstr" where
  "collapseSpaces [] = []"
| "collapseSpaces (c # cs) =
     (if isSpace c then 32 # collapseSpaces (dropWhile isSpace cs)
      else c # collapseSpaces cs)"
  by pat_completeness auto
termination
  by (relation "measure length") (auto simp: length_dropWhile_le less_Suc_eq_le)

text \<open>\<^verbatim>\<open>xs.join(sep)\<close> on an array of strings.\<close>

fun join :: "jsstr \<Rightarrow> jsstr list \<Rightarrow> jsstr" where
  "join sep [] = []"
| "join sep [x] = x"
| "join sep (x # y # ys) = x @ sep @ join sep (y # ys)"

text \<open>
  \<^verbatim>\<open>s.split(',')\<close> with a one-character separator: the pieces between the separators, an
  empty string giving one empty piece.
\<close>

fun splitOn :: "jschar \<Rightarrow> jsstr \<Rightarrow> jsstr list" where
  "splitOn d [] = [[]]"
| "splitOn d (c # cs) =
     (case splitOn d cs of
        [] \<Rightarrow> [[c]]
      | p # ps \<Rightarrow> if c = d then [] # p # ps else (c # p) # ps)"

text \<open>\<^verbatim>\<open>s.includes(sub)\<close>.\<close>

fun includesStr :: "jsstr \<Rightarrow> jsstr \<Rightarrow> bool" where
  "includesStr [] sub = (sub = [])"
| "includesStr (c # cs) sub = (prefix sub (c # cs) \<or> includesStr cs sub)"

text \<open>A string that neither starts nor ends with white space.\<close>

definition trimmed :: "jsstr \<Rightarrow> bool" where
  "trimmed s \<longleftrightarrow> s = [] \<or> (\<not> isSpace (hd s) \<and> \<not> isSpace (last s))"

text \<open>A collapsed string: every white-space character is a single U+0020 followed by none.\<close>

fun collapsed :: "jsstr \<Rightarrow> bool" where
  "collapsed [] = True"
| "collapsed [c] = (isSpace c \<longrightarrow> c = 32)"
| "collapsed (c # d # cs) =
     ((isSpace c \<longrightarrow> c = 32 \<and> \<not> isSpace d) \<and> collapsed (d # cs))"

section \<open>Query Escaper\<close>

text \<open>
  \<^verbatim>\<open>escapeRediSearchText\<close>: \<^verbatim>\<open>str.replace(/([^a-zA-Z0-9\s\u00C0-\u1EF9\-])/g, '\\$1').trim()\<close>.
  The allow-list is the complement of the character class.
\<close>

definition allowed :: "jschar \<Rightarrow> bool" where
  "allowed c \<longleftrightarrow>
     (97 \<le> c \<and> c \<le> 122) \<or> (65 \<le> c \<and> c \<le> 90) \<or> (48 \<le> c \<and> c \<le> 57) \<or>
     isSpace c \<or> (192 \<le> c \<and> c \<le> 7929) \<or> c = 45"

fun escapeChars :: "jsstr \<Rightarrow> jsstr" where
  "escapeChars [] = []"
| "escapeChars (c # cs) = (if allowed c then c # escapeChars cs else 92 # c # escapeChars cs)"

definition escapeRediSearchText :: "jsstr \<Rightarrow> jsstr" where
  "escapeRediSearchText str = trim (escapeChars str)"

text \<open>
  \<^verbatim>\<open>sanitizeTagKeyword\<close>: \<^verbatim>\<open>str.replace(/[{}\|@*()\\\[\]]/g, ' ').trim().replace(/\s+/g, ' ')\<close>.
  The class is \<^verbatim>\<open>{ } | @ * ( ) \ [ ]\<close>.
\<close>

definition tagMeta :: "jschar \<Rightarrow> bool" where
  "tagMeta c \<longleftrightarrow>
     c = 123 \<or> c = 125 \<or> c = 124 \<or> c = 64 \<or> c = 42 \<or> c = 40 \<or> c = 41 \<or> c = 92 \<or>
     c = 91 \<or> c = 93"

definition sanitizeTagKeyword :: "jsstr \<Rightarrow> jsstr" where
  "sanitizeTagKeyword str =
     collapseSpaces (trim (map (\<lambda>c. if tagMeta c then 32 else c) str))"

section \<open>Numbers\<close>

text \<open>
  The columns of the source store that hold numbers (prices, counts, ratings) are modelled
  as integers, \<open>None\<close> when \<^verbatim>\<open>null\<close>. \<open>numStr\<close> is the string a template literal or
  \<^verbatim>\<open>toString()\<close> gives for an integer of fewer than 22 digits. Fractions are not
  modelled.
\<close>

function natDigits :: "nat \<Rightarrow> jsstr" where
  "natDigits n = (if n < 10 then [48 + n] else natDigits (n div 10) @ [48 + n mod 10])"
  by pat_completeness auto
termination
  by (relation "measure id") auto

declare natDigits.simps [simp del]

definition numStr :: "int \<Rightarrow> jsstr" where
  "numStr i = (if i < 0 then 45 # natDigits (nat (- i)) else natDigits (nat i))"

text \<open>\<^verbatim>\<open>x || d\<close> on a nullable column: \<^verbatim>\<open>null\<close> and 0 are falsy.\<close>

definition orNum :: "int option \<Rightarrow> int \<Rightarrow> int" where
  "orNum x d = (case x of None \<Rightarrow> d | Some n \<Rightarrow> if n \<noteq> 0 then n else d)"

text \<open>
  A number of a request is an integer or \<^verbatim>\<open>NaN\<close>; the field is \<open>None\<close> when it is
  \<^verbatim>\<open>undefined\<close>. \<^verbatim>\<open>undefined\<close>, 0 and \<^verbatim>\<open>NaN\<close> are falsy.
\<close>

datatype jsnum = Num int | NaN

definition truthyNum :: "jsnum option \<Rightarrow> bool" where
  "truthyNum x \<longleftrightarrow> (case x of None \<Rightarrow> False | Some NaN \<Rightarrow> False | Some (Num n) \<Rightarrow> n \<noteq> 0)"

text \<open>\<^verbatim>\<open>Number(x) || d\<close>.\<close>

definition numOr :: "jsnum option \<Rightarrow> int \<Rightarrow> int" where
  "numOr x d = (case x of Some (Num n) \<Rightarrow> if n \<noteq> 0 then n else d | _ \<Rightarrow> d)"

text \<open>A number of a request in a template literal.\<close>

definition showNum :: "jsnum \<Rightarrow> jsstr" where
  "showNum x = (case x of Num n \<Rightarrow> numStr n | NaN \<Rightarrow> js ''NaN'')"

text \<open>The truth value of an optional string: \<^verbatim>\<open>undefined\<close> and the empty string are falsy.\<close>

definition truthyStr :: "jsstr option \<Rightarrow> bool" where
  "truthyStr x \<longleftrightarrow> (case x of None \<Rightarrow> False | Some s \<Rightarrow> s \<noteq> [])"

section \<open>Tag Sanitizer\<close>

subsection \<open>\<^verbatim>\<open>decodeURIComponent\<close>\<close>

text \<open>
  The built-in of ECMAScript: every \<^verbatim>\<open>%XX\<close> is one octet, a run of octets must be the
  UTF-8 encoding of one code point (shortest form, no surrogate, at most U+10FFFF), and the
  result is that code point in UTF-16. Anything else throws \<^verbatim>\<open>URIError\<close>, which is the
  value \<open>None\<close> here. Every other character is copied.
\<close>

definition hexVal :: "jschar \<Rightarrow> nat option" where
  "hexVal c =
     (if 48 \<le> c \<and> c \<le> 57 then Some (c - 48)
      else if 65 \<le> c \<and> c \<le> 70 then Some (c - 55)
      else if 97 \<le> c \<and> c \<le> 102 then Some (c - 87)
      else None)"

datatype uritok = Lit jschar | Oct nat

fun uriTokens :: "jsstr \<Rightarrow> uritok list option" where
  "uriTokens [] = Some []"
| "uriTokens (c # cs) =
     (if c \<noteq> 37 then map_option ((#) (Lit c)) (uriTokens cs)
      else (case cs of
              h1 # h2 # rest \<Rightarrow>
                (case (hexVal h1, hexVal h2) of
                   (Some a, Some b) \<Rightarrow> map_option ((#) (Oct (16 * a + b))) (uriTokens rest)
                 | _ \<Rightarrow> None)
            | _ \<Rightarrow> None))"

definition isCont :: "nat \<Rightarrow> bool" where
  "isCont b \<longleftrightarrow> 128 \<le> b \<and> b \<le> 191"

fun uriOctets :: "uritok list \<Rightarrow> jsstr option" where
  "uriOctets [] = Some []"
| "uriOctets (Lit c # ts) = map_option ((#) c) (uriOctets ts)"
| "uriOctets (Oct b # ts) =
     (if b < 128 then map_option ((#) b) (uriOctets ts)
      else if 194 \<le> b \<and> b \<le> 223 then
        (case ts of
           Oct c1 # r \<Rightarrow>
             if isCont c1 then map_option ((#) ((b - 192) * 64 + (c1 - 128))) (uriOctets r)
             else None
         | _ \<Rightarrow> None)
      else if 224 \<le> b \<and> b \<le> 239 then
        (case ts of
           Oct c1 # Oct c2 # r \<Rightarrow>
             (let v = (b - 224) * 4096 + (c1 - 128) * 64 + (c2 - 128)
              in if isCont c1 \<and> isCont c2 \<and> 2048 \<le> v \<and> \<not> (55296 \<le> v \<and> v \<le> 57343)
                 then map_option ((#) v) (uriOctets r) else None)
         | _ \<Rightarrow> None)
      else if 240 \<le> b \<and> b \<le> 244 then
        (case ts of
           Oct c1 # Oct c2 # Oct c3 # r \<Rightarrow>
             (let v = (b - 240) * 262144 + (c1 - 128) * 4096 + (c2 - 128) * 64 + (c3 - 128)
              in if isCont c1 \<and> isCont c2 \<and> isCont c3 \<and> 65536 \<le> v \<and> v \<le> 1114111
                 then map_option
                        (\<lambda>s. (55296 + (v - 65536) div 1024) # (56320 + (v - 65536) mod 1024) # s)
                        (uriOctets r)
                 else None)
         | _ \<Rightarrow> None)
      else None)"

definition decodeURIComponent :: "jsstr \<Rightarrow> jsstr option" where
  "decodeURIComponent s = (case uriTokens s of None \<Rightarrow> None | Some ts \<Rightarrow> uriOctets ts)"

subsection \<open>Cleaning one tag\<close>

text \<open>
  \<^verbatim>\<open>/.*(\?|&)q=/\<close> anchored at the start of the string: \<^verbatim>\<open>.*\<close> is greedy and stops at a
  line terminator, so the call that consumes one more character is tried first, and the
  literal \<^verbatim>\<open>?\<close> or \<^verbatim>\<open>&\<close> followed by the keyword only when that fails. The result is
  what follows the match.
\<close>

fun matchUpTo :: "jsstr \<Rightarrow> jsstr \<Rightarrow> jsstr option" where
  "matchUpTo kw [] = None"
| "matchUpTo kw (c # cs) =
     (case (if isLineTerminator c then None else matchUpTo kw cs) of
        Some r \<Rightarrow> Some r
      | None \<Rightarrow>
          if (c = 63 \<or> c = 38) \<and> prefix kw cs then Some (drop (length kw) cs) else None)"

text \<open>
  \<^verbatim>\<open>s.replace(/.*(\?|&)kw/, '')\<close>: the expression has no \<^verbatim>\<open>g\<close> flag, so only the
  leftmost match is removed; the start positions are tried from left to right.
\<close>

fun stripUpTo :: "jsstr \<Rightarrow> jsstr \<Rightarrow> jsstr" where
  "stripUpTo kw [] = []"
| "stripUpTo kw (c # cs) =
     (case matchUpTo kw (c # cs) of Some r \<Rightarrow> r | None \<Rightarrow> c # stripUpTo kw cs)"

text \<open>
  The class \<^verbatim>\<open>[{}()\[\]|@!<>"`'\\]\<close>: braces, parentheses, brackets, bar, at, bang, angle
  brackets, double quote, backtick, single quote, backslash.
\<close>

definition dangerous :: "jschar \<Rightarrow> bool" where
  "dangerous c \<longleftrightarrow>
     c = 123 \<or> c = 125 \<or> c = 40 \<or> c = 41 \<or> c = 91 \<or> c = 93 \<or> c = 124 \<or> c = 64 \<or>
     c = 33 \<or> c = 60 \<or> c = 62 \<or> c = 34 \<or> c = 96 \<or> c = 39 \<or> c = 92"

text \<open>The body of the \<^verbatim>\<open>map\<close> callback for a string element, steps A to D.\<close>

definition cleanTag :: "jsstr \<Rightarrow> jsstr" where
  "cleanTag tag =
     (let clean = (case decodeURIComponent tag of Some d \<Rightarrow> d | None \<Rightarrow> tag);
          clean = stripUpTo (js ''keyword='') (stripUpTo (js ''q='') clean);
          clean = map (\<lambda>c. if dangerous c then 32 else c) clean
      in collapseSpaces (trim clean))"

subsection \<open>\<^verbatim>\<open>cleanSystemTags\<close>\<close>

text \<open>
  The argument is typed \<^verbatim>\<open>any\<close>: an array whose elements are strings or something else,
  a string, or any other value. \<^verbatim>\<open>JSON.parse\<close> is the built-in; it is a parameter of the
  model, giving for each string a syntax error, an array, or a value that is not an array.
\<close>

datatype tagElem = TStr jsstr | TOther

datatype tagInput = ArrayInput "tagElem list" | StringInput jsstr | OtherInput

datatype parsedTags = ParseError | ParsedArray "tagElem list" | ParsedOther

text \<open>\<^verbatim>\<open>Array.from(new Set(xs))\<close>: a set keeps its elements in insertion order.\<close>

definition setAdd :: "'a list \<Rightarrow> 'a \<Rightarrow> 'a list" where
  "setAdd acc x = (if x \<in> set acc then acc else acc @ [x])"

definition uniq :: "'a list \<Rightarrow> 'a list" where
  "uniq xs = foldl setAdd [] xs"

text \<open>Step 1 of \<^verbatim>\<open>cleanSystemTags\<close>: the candidate list.\<close>

definition normalizeTags :: "(jsstr \<Rightarrow> parsedTags) \<Rightarrow> tagInput \<Rightarrow> tagElem list" where
  "normalizeTags parse inputTags =
     (case inputTags of
        ArrayInput xs \<Rightarrow> xs
      | StringInput s \<Rightarrow>
          (case parse s of
             ParsedArray xs \<Rightarrow> xs
           | ParsedOther \<Rightarrow> []
           | ParseError \<Rightarrow> map TStr (splitOn 44 s))
      | OtherInput \<Rightarrow> [])"

text \<open>The array \<^verbatim>\<open>cleanedTags\<close> of the source: the \<^verbatim>\<open>map\<close> and the \<^verbatim>\<open>filter\<close>.\<close>

definition cleanedTags :: "tagElem list \<Rightarrow> jsstr list" where
  "cleanedTags tags =
     filter (\<lambda>t. 0 < length t \<and> length t < 50)
       (map (\<lambda>e. case e of TStr s \<Rightarrow> cleanTag s | TOther \<Rightarrow> []) tags)"

definition cleanSystemTags :: "(jsstr \<Rightarrow> parsedTags) \<Rightarrow> tagInput \<Rightarrow> jsstr" where
  "cleanSystemTags parse inputTags =
     (let tags = normalizeTags parse inputTags
      in if tags = [] then [] else join (js '','') (uniq (cleanedTags tags)))"

text \<open>The array that \<^verbatim>\<open>cleanSystemTags\<close> joins: the cleaned candidates without repetition.\<close>

definition tagList :: "(jsstr \<Rightarrow> parsedTags) \<Rightarrow> tagInput \<Rightarrow> jsstr list" where
  "tagList parse inputTags = uniq (cleanedTags (normalizeTags parse inputTags))"

section \<open>Source store rows and index store commands\<close>

text \<open>
  A row of the product table with the relation \<^verbatim>\<open>shop\<close> joined. \<^verbatim>\<open>images\<close> is a JSON
  column: an array of strings, a string, or something else. Optional columns are \<open>None\<close>
  when \<^verbatim>\<open>null\<close>.
\<close>

datatype images = ImagesArray "jsstr list" | ImagesString jsstr | ImagesOther

record shop =
  city :: "jsstr option"

record product =
  p_id :: jsstr
  p_name :: jsstr
  p_slug :: jsstr
  p_price :: int
  p_originalPrice :: "int option"
  p_salesCount :: "int option"
  p_rating :: "int option"
  p_status :: jsstr
  p_images :: images
  p_systemTags :: tagInput
  p_shop :: "shop option"
  p_createdAt :: int

text \<open>The object that \<^verbatim>\<open>JSON.stringify\<close> turns into the field \<^verbatim>\<open>json\<close> of an index entry.\<close>

record mirror =
  m_id :: jsstr
  m_name :: jsstr
  m_slug :: jsstr
  m_price :: int
  m_originalPrice :: int
  m_images :: "jsstr list"
  m_salesCount :: int
  m_location :: "jsstr option option"

text \<open>The payload of a suggestion.\<close>

record sugPayload =
  sp_id :: jsstr
  sp_slug :: jsstr
  sp_price :: int
  sp_image :: jsstr

datatype fval = FStr jsstr | FNum int | FNaN | FJson mirror

text \<open>
  The commands the sync functions send to the index store: \<^verbatim>\<open>DEL key\<close>, \<^verbatim>\<open>HSET key\<close> with
  a field map in the order of the object literal, and \<^verbatim>\<open>FT.SUGADD key name score PAYLOAD p\<close>.
\<close>

datatype cmd =
    Del jsstr
  | HSet jsstr "(jsstr \<times> fval) list"
  | SugAdd jsstr jsstr jsstr sugPayload

definition SUGGESTION_KEY :: jsstr where
  "SUGGESTION_KEY = js ''sug:products''"

definition INDEX_NAME :: jsstr where
  "INDEX_NAME = js ''idx:products''"

definition ACTIVE :: jsstr where
  "ACTIVE = js ''ACTIVE''"

text \<open>\<^verbatim>\<open>Array.isArray(p.images) && p.images.length > 0 ? p.images[0] : ''\<close>.\<close>

definition firstImage :: "images \<Rightarrow> jsstr" where
  "firstImage imgs = (case imgs of ImagesArray (x # xs) \<Rightarrow> x | _ \<Rightarrow> [])"

text \<open>\<^verbatim>\<open>p.shop?.city\<close>: \<^verbatim>\<open>undefined\<close> without a shop, the column otherwise.\<close>

definition shopCity :: "shop option \<Rightarrow> jsstr option option" where
  "shopCity s = map_option city s"

text \<open>\<^verbatim>\<open>p.shop?.city ? this.sanitizeTagKeyword(p.shop.city) : 'Khac'\<close>.\<close>

definition locationTag :: "shop option \<Rightarrow> jsstr" where
  "locationTag s =
     (case shopCity s of
        Some (Some c) \<Rightarrow> if c \<noteq> [] then sanitizeTagKeyword c else js ''Khac''
      | _ \<Rightarrow> js ''Khac'')"

section \<open>Full Sync\<close>

text \<open>
  The body of the loop of \<^verbatim>\<open>syncAllProductsToRedis\<close>. The \<^verbatim>\<open>select\<close> of its query does not
  name \<^verbatim>\<open>createdAt\<close>, so \<^verbatim>\<open>p.createdAt\<close> is \<^verbatim>\<open>undefined\<close> and
  \<^verbatim>\<open>new Date(undefined).getTime()\<close> is \<^verbatim>\<open>NaN\<close>.
\<close>

definition fullJson :: "product \<Rightarrow> mirror" where
  "fullJson p =
     \<lparr> m_id = p_id p, m_name = p_name p, m_slug = p_slug p, m_price = p_price p,
       m_originalPrice = orNum (p_originalPrice p) 0, m_images = [firstImage (p_images p)],
       m_salesCount = orNum (p_salesCount p) 0, m_location = shopCity (p_shop p) \<rparr>"

definition fullFields :: "(jsstr \<Rightarrow> parsedTags) \<Rightarrow> product \<Rightarrow> (jsstr \<times> fval) list" where
  "fullFields parse p =
     [(js ''name'', FStr (p_name p)),
      (js ''price'', FNum (p_price p)),
      (js ''salesCount'', FNum (orNum (p_salesCount p) 0)),
      (js ''rating'', FNum (orNum (p_rating p) 0)),
      (js ''location'', FStr (locationTag (p_shop p))),
      (js ''status'', FStr (p_status p)),
      (js ''id'', FStr (p_id p)),
      (js ''slug'', FStr (p_slug p)),
      (js ''json'', FJson (fullJson p)),
      (js ''systemTags'', FStr (cleanSystemTags parse (p_systemTags p))),
      (js ''createdAt'', FNaN)]"

definition fullSuggestion :: "product \<Rightarrow> cmd" where
  "fullSuggestion p =
     (let score = (case p_salesCount p of Some n \<Rightarrow> if n > 0 then n else 1 | None \<Rightarrow> 1);
          payload = \<lparr> sp_id = p_id p, sp_slug = p_slug p, sp_price = p_price p,
                      sp_image = firstImage (p_images p) \<rparr>
      in SugAdd SUGGESTION_KEY (p_name p) (numStr score) payload)"

text \<open>
  \<^verbatim>\<open>syncAllProductsToRedis\<close> on the product table \<open>db\<close>: the commands it sends, in order, and
  the count it returns. The store calls are taken to succeed; when one rejects the source
  logs the error and returns nothing.
\<close>

definition syncAllProductsToRedis ::
  "(jsstr \<Rightarrow> parsedTags) \<Rightarrow> product list \<Rightarrow> cmd list \<times> nat" where
  "syncAllProductsToRedis parse db =
     (let products = filter (\<lambda>p. p_status p = ACTIVE) db
      in (Del SUGGESTION_KEY #
            concat (map (\<lambda>p. [HSet (js ''product:'' @ p_id p) (fullFields parse p),
                               fullSuggestion p]) products),
          length products))"

section \<open>Incremental Sync\<close>

definition incrJson :: "product \<Rightarrow> mirror" where
  "incrJson fullProduct =
     \<lparr> m_id = p_id fullProduct, m_name = p_name fullProduct, m_slug = p_slug fullProduct,
       m_price = p_price fullProduct, m_originalPrice = orNum (p_originalPrice fullProduct) 0,
       m_images = [firstImage (p_images fullProduct)],
       m_salesCount = orNum (p_salesCount fullProduct) 0,
       m_location = shopCity (p_shop fullProduct) \<rparr>"

definition incrFields :: "(jsstr \<Rightarrow> parsedTags) \<Rightarrow> product \<Rightarrow> (jsstr \<times> fval) list" where
  "incrFields parse fullProduct =
     [(js ''name'', FStr (p_name fullProduct)),
      (js ''price'', FNum (p_price fullProduct)),
      (js ''salesCount'', FNum (orNum (p_salesCount fullProduct) 0)),
      (js ''rating'', FNum (orNum (p_rating fullProduct) 0)),
      (js ''location'', FStr (locationTag (p_shop fullProduct))),
      (js ''status'', FStr (p_status fullProduct)),
      (js ''id'', FStr (p_id fullProduct)),
      (js ''slug'', FStr (p_slug fullProduct)),
      (js ''json'', FJson (incrJson fullProduct)),
      (js ''systemTags'', FStr (cleanSystemTags parse (p_systemTags fullProduct)))]"

definition incrSuggestion :: "product \<Rightarrow> cmd" where
  "incrSuggestion fullProduct =
     (let score = (case p_salesCount fullProduct of
                     Some n \<Rightarrow> if n > 0 then n else 1 | None \<Rightarrow> 1);
          payload = \<lparr> sp_id = p_id fullProduct, sp_slug = p_slug fullProduct,
                      sp_price = p_price fullProduct,
                      sp_image = firstImage (p_images fullProduct) \<rparr>
      in SugAdd SUGGESTION_KEY (p_name fullProduct) (numStr score) payload)"

text \<open>
  \<^verbatim>\<open>syncProductToRedis\<close>: \<^verbatim>\<open>findUnique\<close> by the identifier of the argument, nothing when the
  row is gone, else one \<^verbatim>\<open>HSET\<close> and one \<^verbatim>\<open>FT.SUGADD\<close>. The store calls are taken to succeed;
  the source has no handler here, a rejection would reach the caller.
\<close>

definition syncProductToRedis ::
  "(jsstr \<Rightarrow> parsedTags) \<Rightarrow> product list \<Rightarrow> jsstr \<Rightarrow> cmd list" where
  "syncProductToRedis parse db product_id =
     (case find (\<lambda>p. p_id p = product_id) db of
        None \<Rightarrow> []
      | Some fullProduct \<Rightarrow>
          [HSet (js ''product:'' @ p_id fullProduct) (incrFields parse fullProduct),
           incrSuggestion fullProduct])"

section \<open>The index store's state\<close>




section \<open>Concrete inputs\<close>

text \<open>A \<^verbatim>\<open>JSON.parse\<close> that rejects every string, for inputs that never reach it.\<close>

definition noJson :: "jsstr \<Rightarrow> parsedTags" where
  "noJson s = ParseError"

text \<open>A product that has left the catalogue: its row exists, its status is not ACTIVE.\<close>

definition inactiveItem :: product where
  "inactiveItem =
     \<lparr> p_id = js ''1'', p_name = js ''ao dai'', p_slug = js ''ao-dai'', p_price = 100000,
       p_originalPrice = None, p_salesCount = Some 3, p_rating = Some 4,
       p_status = js ''INACTIVE'', p_images = ImagesArray [js ''a.png''],
       p_systemTags = ArrayInput [TStr (js ''ao'')],
       p_shop = Some \<lparr> city = Some (js ''Ha Noi'') \<rparr>, p_createdAt = 0 \<rparr>"

section \<open>Query Planner: requests, replies and results\<close>

text \<open>\<^verbatim>\<open>FindAllPublicDto\<close>: every field is optional.\<close>

record query =
  q_page :: "jsnum option"
  q_limit :: "jsnum option"
  q_search :: "jsstr option"
  q_categoryId :: "jsstr option"
  q_categorySlug :: "jsstr option"
  q_brandId :: "jsnum option"
  q_minPrice :: "jsnum option"
  q_maxPrice :: "jsnum option"
  q_rating :: "jsnum option"
  q_sort :: "jsstr option"
  q_tag :: "jsstr option"
  q_locations :: "jsstr list option"

text \<open>
  What a call of the Redis client resolves to: nil, an integer, a string or an array of
  such values.
\<close>

datatype rval = VNull | VNum int | VStr jsstr | VArr "rval list"

text \<open>
  What is thrown: a rejected call of a store with its message, the \<^verbatim>\<open>TypeError\<close> of reading
  a property of \<^verbatim>\<open>null\<close>, the \<^verbatim>\<open>SyntaxError\<close> of \<^verbatim>\<open>JSON.parse\<close>, and the
  \<^verbatim>\<open>NotFoundException\<close> of the service.
\<close>

datatype error = Rejected jsstr | TypeError | SyntaxError | NotFoundException jsstr

text \<open>The arguments of \<^verbatim>\<open>FT.SEARCH\<close> that vary.\<close>

record ftcall =
  ft_query :: jsstr
  ft_offset :: int
  ft_limit :: int
  ft_sortField :: jsstr
  ft_sortDir :: jsstr

text \<open>
  The \<^verbatim>\<open>where\<close> object of the fallback: the status, the \<^verbatim>\<open>OR\<close> of the two
  \<^verbatim>\<open>contains\<close> on name and systemTags, the price object with its optional bounds, the
  rating floor, the list of cities and the \<^verbatim>\<open>contains\<close> on systemTags.
\<close>

record whereInput =
  w_status :: jsstr
  w_OR_contains :: "jsstr option"
  w_price :: "(jsnum option \<times> jsnum option) option"
  w_rating_gte :: "jsnum option"
  w_shop_city_in :: "jsstr list option"
  w_systemTags_contains :: "jsstr option"

record findManyArgs =
  fm_where :: whereInput
  fm_take :: int
  fm_skip :: int
  fm_orderBy :: "jsstr \<times> jsstr"

text \<open>
  The item of a result page: a parsed JSON mirror from the index, or a row of the source
  store with the fields the fallback overrides. \<open>'j\<close> is the type of parsed JSON values.
\<close>

datatype 'j imagesView = ImagesParsed 'j | ImagesRaw images

record 'j rowView =
  rv_row :: product
  rv_price :: int
  rv_originalPrice :: int
  rv_location :: "jsstr option option"
  rv_images :: "'j imagesView"

datatype 'j item = Payload 'j | Row "'j rowView"

text \<open>\<^verbatim>\<open>total\<close> is whatever stands first in the reply (\<open>None\<close> is \<^verbatim>\<open>undefined\<close>); \<^verbatim>\<open>last_page\<close>
  is \<open>None\<close> when it is \<^verbatim>\<open>NaN\<close>.\<close>

record meta =
  mt_total :: "rval option"
  mt_page :: int
  mt_limit :: int
  mt_last_page :: "int option"

record 'j page =
  pg_data :: "'j item list"
  pg_meta :: meta

text \<open>
  The collaborators of \<^verbatim>\<open>findAllPublic\<close>: the reply of \<^verbatim>\<open>FT.SEARCH\<close> to a call, the two
  Prisma queries, whether \<^verbatim>\<open>SET\<close> on a key is rejected, and the built-ins \<^verbatim>\<open>JSON.parse\<close>
  (\<open>None\<close> when it throws), the number a string or an array converts to (\<open>None\<close> for
  \<^verbatim>\<open>NaN\<close>) and the MD5 of the serialized request.
\<close>

record 'j env =
  ft_search :: "ftcall \<Rightarrow> error + rval"
  find_many :: "findManyArgs \<Rightarrow> error + product list"
  count_rows :: "whereInput \<Rightarrow> error + int"
  redis_set :: "jsstr \<Rightarrow> error option"
  json_parse :: "jsstr \<Rightarrow> 'j option"
  to_number :: "rval \<Rightarrow> int option"
  query_hash :: "query \<Rightarrow> jsstr"

text \<open>The Result Cache: a value and its time to live in seconds, by key.\<close>

type_synonym 'j cache = "jsstr \<rightharpoonup> 'j page \<times> nat"

record 'j outcome =
  out_result :: "error + 'j page"
  out_sets :: "(jsstr \<times> 'j page \<times> nat) list"
  out_cache :: "'j cache"

section \<open>Query Planner: \<^verbatim>\<open>findAllPublic\<close>\<close>

text \<open>\<^verbatim>\<open>Math.max(1, Number(query.page) || 1)\<close> and the same for the limit.\<close>

definition pageOf :: "query \<Rightarrow> int" where
  "pageOf q = max 1 (numOr (q_page q) 1)"

definition limitOf :: "query \<Rightarrow> int" where
  "limitOf q = max 1 (numOr (q_limit q) 20)"

definition skipOf :: "query \<Rightarrow> int" where
  "skipOf q = (pageOf q - 1) * limitOf q"

text \<open>\<^verbatim>\<open>Math.ceil(total / limit)\<close> for integers and a positive limit.\<close>

definition ceilDiv :: "int \<Rightarrow> int \<Rightarrow> int" where
  "ceilDiv n l = - ((- n) div l)"

text \<open>\<^verbatim>\<open>query.search ? query.search.trim() : ''\<close>.\<close>

definition searchKeyword :: "query \<Rightarrow> jsstr" where
  "searchKeyword q = (if truthyStr (q_search q) then trim (the (q_search q)) else [])"

definition shouldUseRedis :: "query \<Rightarrow> bool" where
  "shouldUseRedis q \<longleftrightarrow>
     length (searchKeyword q) > 0 \<or> truthyStr (q_tag q) \<or> truthyNum (q_minPrice q) \<or>
     truthyNum (q_maxPrice q) \<or> truthyNum (q_rating q) \<or>
     (case q_locations q of Some ls \<Rightarrow> length ls > 0 | None \<Rightarrow> False)"

text \<open>\<^verbatim>\<open>s.split(/\s+/)\<close>.\<close>

function splitSpaces :: "jsstr \<Rightarrow> jsstr list" where
  "splitSpaces [] = [[]]"
| "splitSpaces (c # cs) =
     (if isSpace c then [] # splitSpaces (dropWhile isSpace cs)
      else (case splitSpaces cs of [] \<Rightarrow> [[c]] | p # ps \<Rightarrow> (c # p) # ps))"
  by pat_completeness auto
termination
  by (relation "measure length") (auto simp: length_dropWhile_le less_Suc_eq_le)

text \<open>The array \<^verbatim>\<open>conditions\<close>: the text clause, when there is a keyword that survives escaping.\<close>

definition conditions :: "query \<Rightarrow> jsstr list" where
  "conditions q =
     (if searchKeyword q \<noteq> [] then
        (let cleanName = escapeRediSearchText (searchKeyword q)
         in if cleanName \<noteq> [] then
              (let nameTokens = join (js '' '') (map (\<lambda>t. t @ js ''*'') (splitSpaces cleanName))
               in [js ''(@name:('' @ nameTokens @ js '') | @systemTags:{'' @
                   sanitizeTagKeyword (searchKeyword q) @ js ''})''])
            else [])
      else [])"

definition ftQuery :: "query \<Rightarrow> jsstr" where
  "ftQuery q =
     js ''@status:{ACTIVE}'' @
     (if length (conditions q) > 0 then js '' '' @ join (js '' '') (conditions q) else []) @
     (if truthyStr (q_tag q)
      then js '' @systemTags:{'' @ sanitizeTagKeyword (the (q_tag q)) @ js ''}'' else []) @
     (case q_locations q of
        Some ls \<Rightarrow>
          if length ls > 0
          then js '' @location:{'' @ join (js '' | '') (map sanitizeTagKeyword ls) @ js ''}''
          else []
      | None \<Rightarrow> []) @
     (if q_minPrice q \<noteq> None \<or> q_maxPrice q \<noteq> None
      then js '' @price:['' @
           (case q_minPrice q of Some n \<Rightarrow> showNum n | None \<Rightarrow> js ''-Infinity'') @ js '' '' @
           (case q_maxPrice q of Some n \<Rightarrow> showNum n | None \<Rightarrow> js ''Infinity'') @ js '']''
      else []) @
     (if truthyNum (q_rating q)
      then js '' @rating:['' @ showNum (the (q_rating q)) @ js '' +inf]'' else [])"

definition ftSort :: "query \<Rightarrow> jsstr \<times> jsstr" where
  "ftSort q =
     (if q_sort q = Some (js ''price_desc'') then (js ''price'', js ''DESC'')
      else if q_sort q = Some (js ''price_asc'') then (js ''price'', js ''ASC'')
      else (js ''salesCount'', js ''DESC''))"

definition ftCall :: "query \<Rightarrow> ftcall" where
  "ftCall q =
     \<lparr> ft_query = ftQuery q, ft_offset = skipOf q, ft_limit = limitOf q,
       ft_sortField = fst (ftSort q), ft_sortDir = snd (ftSort q) \<rparr>"

subsection \<open>Reading the reply\<close>

text \<open>The truth value of a reply value and the string \<^verbatim>\<open>JSON.parse\<close> converts it to.\<close>

definition truthy :: "rval \<Rightarrow> bool" where
  "truthy v \<longleftrightarrow> (case v of VNull \<Rightarrow> False | VNum n \<Rightarrow> n \<noteq> 0 | VStr s \<Rightarrow> s \<noteq> [] | VArr xs \<Rightarrow> True)"

fun toStr :: "rval \<Rightarrow> jsstr" where
  "toStr VNull = js ''null''"
| "toStr (VNum n) = numStr n"
| "toStr (VStr s) = s"
| "toStr (VArr xs) = join (js '','') (map (\<lambda>x. if x = VNull then [] else toStr x) xs)"

text \<open>\<^verbatim>\<open>xs.indexOf(x)\<close> on an array and on a string, and \<^verbatim>\<open>xs[i]\<close> (\<open>None\<close> is \<^verbatim>\<open>undefined\<close>).\<close>

fun indexOf :: "'a list \<Rightarrow> 'a \<Rightarrow> int" where
  "indexOf [] x = - 1"
| "indexOf (y # ys) x = (if y = x then 0 else (let i = indexOf ys x in if i < 0 then - 1 else i + 1))"

fun strIndexOf :: "jsstr \<Rightarrow> jsstr \<Rightarrow> int" where
  "strIndexOf [] sub = (if sub = [] then 0 else - 1)"
| "strIndexOf (c # cs) sub =
     (if prefix sub (c # cs) then 0
      else (let i = strIndexOf cs sub in if i < 0 then - 1 else i + 1))"

definition at :: "'a list \<Rightarrow> int \<Rightarrow> 'a option" where
  "at xs i = (if 0 \<le> i \<and> nat i < length xs then Some (xs ! nat i) else None)"

text \<open>
  \<^verbatim>\<open>fields[fields.indexOf('json') + 1]\<close> under the guard \<^verbatim>\<open>fields && fields.length >= 2\<close>:
  only an array or a string has a length.
\<close>

definition jsonStrOf :: "rval \<Rightarrow> rval option" where
  "jsonStrOf flds =
     (case flds of
        VArr fs \<Rightarrow> if length fs \<ge> 2 then at fs (indexOf fs (VStr (js ''json'')) + 1) else None
      | VStr s \<Rightarrow>
          if length s \<ge> 2 then map_option (\<lambda>c. VStr [c]) (at s (strIndexOf s (js ''json'') + 1))
          else None
      | _ \<Rightarrow> None)"

text \<open>
  The loop \<^verbatim>\<open>for (let i = 1; i < searchRes.length; i += 2)\<close> on the reply without its first
  element: a key, then its fields; a key without fields is skipped.
\<close>

fun parsePairs :: "(jsstr \<Rightarrow> 'j option) \<Rightarrow> rval list \<Rightarrow> error + 'j list" where
  "parsePairs jp [] = Inr []"
| "parsePairs jp [k] = Inr []"
| "parsePairs jp (k # flds # rest) =
     (case jsonStrOf flds of
        None \<Rightarrow> parsePairs jp rest
      | Some jsonStr \<Rightarrow>
          if truthy jsonStr then
            (case jp (toStr jsonStr) of
               None \<Rightarrow> Inl SyntaxError
             | Some v \<Rightarrow>
                 (case parsePairs jp rest of Inl e \<Rightarrow> Inl e | Inr vs \<Rightarrow> Inr (v # vs)))
          else parsePairs jp rest)"

text \<open>\<^verbatim>\<open>Math.ceil(total / limit)\<close> for whatever \<^verbatim>\<open>total\<close> is.\<close>

definition lastPage :: "'j env \<Rightarrow> rval option \<Rightarrow> int \<Rightarrow> int option" where
  "lastPage env tot limit =
     (case tot of
        None \<Rightarrow> None
      | Some (VNum n) \<Rightarrow> Some (ceilDiv n limit)
      | Some VNull \<Rightarrow> Some 0
      | Some v \<Rightarrow> map_option (\<lambda>n. ceilDiv n limit) (to_number env v))"

text \<open>
  Step 1, the body of the \<^verbatim>\<open>try\<close>: \<open>Inl\<close> is what it throws, \<open>Inr\<close> the page it returns.
\<close>

definition indexPath :: "'j env \<Rightarrow> query \<Rightarrow> error + 'j page" where
  "indexPath env q =
     (case ft_search env (ftCall q) of
        Inl e \<Rightarrow> Inl e
      | Inr searchRes \<Rightarrow>
          (case searchRes of
             VNull \<Rightarrow> Inl TypeError
           | VNum n \<Rightarrow>
               Inr \<lparr> pg_data = [],
                     pg_meta = \<lparr> mt_total = None, mt_page = pageOf q, mt_limit = limitOf q,
                                 mt_last_page = lastPage env None (limitOf q) \<rparr> \<rparr>
           | VStr s \<Rightarrow>
               (let tot = map_option (\<lambda>c. VStr [c]) (at s 0)
                in Inr \<lparr> pg_data = [],
                         pg_meta = \<lparr> mt_total = tot, mt_page = pageOf q, mt_limit = limitOf q,
                                     mt_last_page = lastPage env tot (limitOf q) \<rparr> \<rparr>)
           | VArr xs \<Rightarrow>
               (let tot = at xs 0
                in case parsePairs (json_parse env) (drop 1 xs) of
                     Inl e \<Rightarrow> Inl e
                   | Inr products \<Rightarrow>
                       Inr \<lparr> pg_data = map Payload products,
                             pg_meta = \<lparr> mt_total = tot, mt_page = pageOf q,
                                         mt_limit = limitOf q,
                                         mt_last_page = lastPage env tot (limitOf q) \<rparr> \<rparr>)))"

subsection \<open>The fallback on the source store\<close>

definition dbWhere :: "query \<Rightarrow> whereInput" where
  "dbWhere q =
     \<lparr> w_status = ACTIVE,
       w_OR_contains = (if searchKeyword q \<noteq> [] then Some (searchKeyword q) else None),
       w_price =
         (if truthyNum (q_minPrice q) \<or> truthyNum (q_maxPrice q)
          then Some (if truthyNum (q_minPrice q) then q_minPrice q else None,
                     if truthyNum (q_maxPrice q) then q_maxPrice q else None)
          else None),
       w_rating_gte = (if truthyNum (q_rating q) then q_rating q else None),
       w_shop_city_in =
         (case q_locations q of Some ls \<Rightarrow> if length ls > 0 then Some ls else None | None \<Rightarrow> None),
       w_systemTags_contains = (if truthyStr (q_tag q) then q_tag q else None) \<rparr>"

definition dbOrderBy :: "query \<Rightarrow> jsstr \<times> jsstr" where
  "dbOrderBy q =
     (if q_sort q = Some (js ''newest'') then (js ''createdAt'', js ''desc'')
      else if q_sort q = Some (js ''price_desc'') then (js ''price'', js ''desc'')
      else if q_sort q = Some (js ''price_asc'') then (js ''price'', js ''asc'')
      else (js ''salesCount'', js ''desc''))"

text \<open>The callback of \<^verbatim>\<open>products.map\<close>; \<^verbatim>\<open>JSON.parse(p.images)\<close> can throw.\<close>

definition mapRow :: "(jsstr \<Rightarrow> 'j option) \<Rightarrow> product \<Rightarrow> 'j rowView option" where
  "mapRow jp p =
     (let view = (\<lambda>imgs. \<lparr> rv_row = p, rv_price = p_price p,
                           rv_originalPrice = orNum (p_originalPrice p) 0,
                           rv_location = shopCity (p_shop p), rv_images = imgs \<rparr>)
      in case p_images p of
           ImagesString s \<Rightarrow> map_option (\<lambda>j. view (ImagesParsed j)) (jp s)
         | imgs \<Rightarrow> Some (view (ImagesRaw imgs)))"

fun mapRows :: "(jsstr \<Rightarrow> 'j option) \<Rightarrow> product list \<Rightarrow> 'j rowView list option" where
  "mapRows jp [] = Some []"
| "mapRows jp (p # ps) =
     (case mapRow jp p of
        None \<Rightarrow> None
      | Some r \<Rightarrow> (case mapRows jp ps of None \<Rightarrow> None | Some rs \<Rightarrow> Some (r # rs)))"

text \<open>
  Step 2, the body of the \<^verbatim>\<open>try\<close>: \<open>Inl\<close> is what it throws, \<open>Inr\<close> the value of
  \<^verbatim>\<open>resultData\<close>.
\<close>

definition dbPath :: "'j env \<Rightarrow> query \<Rightarrow> error + 'j page" where
  "dbPath env q =
     (case find_many env \<lparr> fm_where = dbWhere q, fm_take = limitOf q, fm_skip = skipOf q,
                          fm_orderBy = dbOrderBy q \<rparr> of
        Inl e \<Rightarrow> Inl e
      | Inr products \<Rightarrow>
          (case count_rows env (dbWhere q) of
             Inl e \<Rightarrow> Inl e
           | Inr tot \<Rightarrow>
               (case mapRows (json_parse env) products of
                  None \<Rightarrow> Inl SyntaxError
                | Some rows \<Rightarrow>
                    Inr \<lparr> pg_data = map Row rows,
                          pg_meta = \<lparr> mt_total = Some (VNum tot), mt_page = pageOf q,
                                      mt_limit = limitOf q,
                                      mt_last_page = Some (ceilDiv tot (limitOf q)) \<rparr> \<rparr>)))"

definition emptyPage :: "query \<Rightarrow> 'j page" where
  "emptyPage q =
     \<lparr> pg_data = [],
       pg_meta = \<lparr> mt_total = Some (VNum 0), mt_page = pageOf q, mt_limit = limitOf q,
                   mt_last_page = Some 0 \<rparr> \<rparr>"

definition cacheKey :: "'j env \<Rightarrow> query \<Rightarrow> jsstr" where
  "cacheKey env q = js ''search:res:'' @ query_hash env q"

text \<open>
  Step 2 and the cache write of \<^verbatim>\<open>findAllPublic\<close>. \<^verbatim>\<open>resultData\<close> is \<^verbatim>\<open>null\<close> whenever
  step 2 is reached, so its guard \<^verbatim>\<open>!resultData || resultData.data.length === 0\<close> holds.
  What the \<^verbatim>\<open>try\<close> of step 2 throws is caught and gives the empty page. The \<^verbatim>\<open>SET\<close> that
  follows is outside both handlers: when it is rejected the call throws.
\<close>

definition fallbackAndCache :: "'j env \<Rightarrow> 'j cache \<Rightarrow> query \<Rightarrow> 'j outcome" where
  "fallbackAndCache env kv q =
     (case dbPath env q of
        Inl dbErr \<Rightarrow> \<lparr> out_result = Inr (emptyPage q), out_sets = [], out_cache = kv \<rparr>
      | Inr resultData \<Rightarrow>
          if length (pg_data resultData) > 0 \<and> \<not> truthyStr (q_search q) then
            (case redis_set env (cacheKey env q) of
               Some e \<Rightarrow>
                 \<lparr> out_result = Inl e,
                   out_sets = [(cacheKey env q, resultData, 60)], out_cache = kv \<rparr>
             | None \<Rightarrow>
                 \<lparr> out_result = Inr resultData,
                   out_sets = [(cacheKey env q, resultData, 60)],
                   out_cache = kv(cacheKey env q \<mapsto> (resultData, 60)) \<rparr>)
          else \<lparr> out_result = Inr resultData, out_sets = [], out_cache = kv \<rparr>)"

text \<open>
  \<^verbatim>\<open>findAllPublic\<close> on the Result Cache \<open>kv\<close>, which it never reads. A page that step 1
  returns ends the call; what step 1 throws is caught and leads to step 2. \<open>out_sets\<close> are
  the \<^verbatim>\<open>SET\<close> commands sent, \<open>out_cache\<close> the cache afterwards.
\<close>

definition findAllPublic :: "'j env \<Rightarrow> 'j cache \<Rightarrow> query \<Rightarrow> 'j outcome" where
  "findAllPublic env kv q =
     (let fromIndex =
            (if shouldUseRedis q
             then (case indexPath env q of Inr pg \<Rightarrow> Some pg | Inl e \<Rightarrow> None)
             else None)
      in case fromIndex of
           Some pg \<Rightarrow> \<lparr> out_result = Inr pg, out_sets = [], out_cache = kv \<rparr>
         | None \<Rightarrow> fallbackAndCache env kv q)"

section \<open>The index store's side of a search\<close>











text \<open>The request without any parameter, and collaborators for the examples.\<close>

definition browseAll :: query where
  "browseAll =
     \<lparr> q_page = None, q_limit = None, q_search = None, q_categoryId = None,
       q_categorySlug = None, q_brandId = None, q_minPrice = None, q_maxPrice = None,
       q_rating = None, q_sort = None, q_tag = None, q_locations = None \<rparr>"

definition activeItem :: product where
  "activeItem = inactiveItem\<lparr> p_id := js ''2'', p_status := ACTIVE \<rparr>"

text \<open>
  Redis is unreachable (every call is rejected) while the source store answers with one
  row.
\<close>

definition redisDown :: "unit env" where
  "redisDown =
     \<lparr> ft_search = (\<lambda>c. Inl (Rejected (js ''Connection is closed''))),
       find_many = (\<lambda>a. Inr [activeItem]),
       count_rows = (\<lambda>w. Inr 1),
       redis_set = (\<lambda>k. Some (Rejected (js ''Connection is closed''))),
       json_parse = (\<lambda>s. None),
       to_number = (\<lambda>v. None),
       query_hash = (\<lambda>q. js ''0f'') \<rparr>"

text \<open>
  Both stores answer: the index lists the one ACTIVE item, the source store returns its
  row.
\<close>

definition allUp :: "unit env" where
  "allUp =
     \<lparr> ft_search =
         (\<lambda>c. Inr (VArr [VNum 1, VStr (js ''product:2''), VArr [VStr (js ''json''), VStr (js ''{}'')]])),
       find_many = (\<lambda>a. Inr [activeItem]),
       count_rows = (\<lambda>w. Inr 1),
       redis_set = (\<lambda>k. None),
       json_parse = (\<lambda>s. Some ()),
       to_number = (\<lambda>v. None),
       query_hash = (\<lambda>q. js ''0f'') \<rparr>"

text \<open>A page that an earlier call has left in the Result Cache.\<close>

definition cachedPage :: "unit page" where
  "cachedPage =
     \<lparr> pg_data = [Payload (), Payload ()],
       pg_meta = \<lparr> mt_total = Some (VNum 2), mt_page = 1, mt_limit = 20, mt_last_page = Some 1 \<rparr> \<rparr>"



section \<open>Index Schema Manager\<close>

text \<open>
  The collaborators of \<^verbatim>\<open>ensureSearchIndex\<close>: \<open>ft_info\<close> is \<open>None\<close> when \<^verbatim>\<open>FT.INFO\<close> is
  rejected (the \<^verbatim>\<open>.catch(() => null)\<close>) or resolves to nil, and otherwise the text that
  \<^verbatim>\<open>JSON.stringify\<close> gives for the reply; \<open>ft_dropindex\<close> and \<open>ft_create\<close> are the errors
  with which \<^verbatim>\<open>FT.DROPINDEX\<close> and \<^verbatim>\<open>FT.CREATE\<close> are rejected, if they are.
\<close>

record startup =
  ft_info :: "jsstr option"
  ft_dropindex :: "error option"
  ft_create :: "error option"

text \<open>
  What the startup check does, in order: the commands it sends, the call of Full Sync,
  and the lines it logs.
\<close>

datatype action = DropIndex | CreateIndex | FullSync | LogWarn | LogInfo | LogError error

text \<open>\<^verbatim>\<open>e.message\<close>.\<close>

definition message :: "error \<Rightarrow> jsstr" where
  "message e =
     (case e of
        Rejected m \<Rightarrow> m
      | TypeError \<Rightarrow> js ''Cannot read properties of null''
      | SyntaxError \<Rightarrow> js ''Unexpected token''
      | NotFoundException m \<Rightarrow> m)"

text \<open>
  The \<^verbatim>\<open>try\<close> block of \<^verbatim>\<open>createSearchIndex\<close>: what it throws, if anything, and what it has
  acts. \<^verbatim>\<open>syncAllProductsToRedis\<close> catches its own errors.
\<close>

definition createBody :: "startup \<Rightarrow> error option \<times> action list" where
  "createBody env =
     (case ft_create env of
        Some e \<Rightarrow> (Some e, [CreateIndex])
      | None \<Rightarrow> (None, [CreateIndex, LogInfo, LogInfo, FullSync]))"

definition createSearchIndex :: "startup \<Rightarrow> (error + unit) \<times> action list" where
  "createSearchIndex env =
     (case createBody env of
        (None, acts) \<Rightarrow> (Inr (), acts)
      | (Some e, acts) \<Rightarrow>
          if \<not> includesStr (message e) (js ''already exists'')
          then (Inr (), acts @ [LogError e])
          else (Inr (), acts))"

text \<open>The \<^verbatim>\<open>try\<close> block of \<^verbatim>\<open>ensureSearchIndex\<close>.\<close>

definition ensureBody :: "startup \<Rightarrow> error option \<times> action list" where
  "ensureBody env =
     (case ft_info env of
        None \<Rightarrow>
          (case createSearchIndex env of
             (Inl e, acts) \<Rightarrow> (Some e, LogWarn # acts)
           | (Inr u, acts) \<Rightarrow> (None, LogWarn # acts))
      | Some infoStr \<Rightarrow>
          if \<not> includesStr infoStr (js ''rating'') \<or> \<not> includesStr infoStr (js ''location'')
          then
            (case ft_dropindex env of
               Some e \<Rightarrow> (Some e, [LogWarn, DropIndex])
             | None \<Rightarrow>
                 (case createSearchIndex env of
                    (Inl e, acts) \<Rightarrow> (Some e, LogWarn # DropIndex # acts)
                  | (Inr u, acts) \<Rightarrow> (None, LogWarn # DropIndex # acts)))
          else (None, [LogInfo]))"

definition ensureSearchIndex :: "startup \<Rightarrow> (error + unit) \<times> action list" where
  "ensureSearchIndex env =
     (case ensureBody env of
        (None, acts) \<Rightarrow> (Inr (), acts)
      | (Some e, acts) \<Rightarrow> (Inr (), acts @ [LogError e]))"

text \<open>The field names of the schema that \<^verbatim>\<open>createSearchIndex\<close> declares.\<close>

definition schemaFields :: "jsstr list" where
  "schemaFields =
     [js ''name'', js ''slug'', js ''price'', js ''salesCount'', js ''rating'', js ''location'',
      js ''status'', js ''systemTags'']"

text \<open>The metadata of an index created before the field systemTags was added.\<close>

definition oldIndexInfo :: jsstr where
  "oldIndexInfo =
     js ''[index_name,idx:products,attributes,[name,slug,price,salesCount,rating,location,status]]''"

section \<open>Detail lookup: \<^verbatim>\<open>findOnePublic\<close>\<close>

text \<open>
  The product object the detail cache holds and the call returns: identifier, slug, status
  and the remaining fields. A row of the source store with its relations joined is the
  same with the unmapped remainder.
\<close>

record 'a detail =
  d_id :: jsstr
  d_slug :: jsstr
  d_status :: jsstr
  d_more :: 'a

record 'r productRow =
  r_id :: jsstr
  r_slug :: jsstr
  r_status :: jsstr
  r_more :: 'r

text \<open>
  The collaborators: the detail cache (its read, and the error with which its write is
  rejected, if it is), the product table with the error with which \<^verbatim>\<open>findFirst\<close> is
  rejected, if it is, and the mapping of prices, option tiers and variants, which is a
  total function of the row.
\<close>

record ('r, 'a) lookup =
  getProductDetail :: "jsstr \<Rightarrow> error + 'a detail option"
  setProductDetail :: "error option"
  table :: "'r productRow list"
  findFirst_error :: "error option"
  mapMore :: "'r \<Rightarrow> 'a"

text \<open>The message of the exception, \<^verbatim>\<open>S\<close>, U+1EA3, \<^verbatim>\<open>n ph\<close>, U+1EA9, \<^verbatim>\<open>m kh\<close>, U+00F4, \<^verbatim>\<open>ng t\<close>,
  U+1ED3, \<^verbatim>\<open>n t\<close>, U+1EA1, \<^verbatim>\<open>i\<close>.\<close>

definition notFoundMessage :: jsstr where
  "notFoundMessage =
     [83, 7843, 110, 32, 112, 104, 7849, 109, 32, 107, 104, 244, 110, 103, 32, 116, 7891, 110,
      32, 116, 7841, 105]"

text \<open>The part of \<^verbatim>\<open>findOnePublic\<close> after the cache check.\<close>

definition fromStore :: "('r, 'a) lookup \<Rightarrow> jsstr \<Rightarrow> error + 'a detail" where
  "fromStore env idOrSlug =
     (case findFirst_error env of
        Some e \<Rightarrow> Inl e
      | None \<Rightarrow>
          (case find (\<lambda>p. r_id p = idOrSlug \<or> r_slug p = idOrSlug) (table env) of
             None \<Rightarrow> Inl (NotFoundException notFoundMessage)
           | Some product \<Rightarrow>
               if r_status product \<noteq> ACTIVE then Inl (NotFoundException notFoundMessage)
               else
                 (let mappedProduct =
                        \<lparr> d_id = r_id product, d_slug = r_slug product,
                          d_status = r_status product, d_more = mapMore env (r_more product) \<rparr>
                  in case setProductDetail env of
                       Some e \<Rightarrow> Inl e
                     | None \<Rightarrow> Inr mappedProduct)))"

definition findOnePublic :: "('r, 'a) lookup \<Rightarrow> jsstr \<Rightarrow> error + 'a detail" where
  "findOnePublic env idOrSlug =
     (case getProductDetail env idOrSlug of
        Inl e \<Rightarrow> Inl e
      | Inr cachedProduct \<Rightarrow>
          (case cachedProduct of
             Some c \<Rightarrow> if d_status c = ACTIVE then Inr c else fromStore env idOrSlug
           | None \<Rightarrow> fromStore env idOrSlug))"

text \<open>
  A detail cache that still holds the first product from before it became INACTIVE, and
  holds the second product under its slug; the table has both rows.
\<close>

definition staleCache :: "(unit, unit) lookup" where
  "staleCache =
     \<lparr> getProductDetail =
         (\<lambda>k. if k = js ''ao-dai''
               then Inr (Some \<lparr> d_id = js ''1'', d_slug = js ''ao-dai'',
                                d_status = js ''INACTIVE'', d_more = () \<rparr>)
               else if k = js ''non-la''
               then Inr (Some \<lparr> d_id = js ''2'', d_slug = js ''non-la'',
                                d_status = ACTIVE, d_more = () \<rparr>)
               else Inr None),
       setProductDetail = None,
       table =
         [\<lparr> r_id = js ''1'', r_slug = js ''ao-dai'', r_status = js ''INACTIVE'', r_more = () \<rparr>,
          \<lparr> r_id = js ''2'', r_slug = js ''non-la'', r_status = ACTIVE, r_more = () \<rparr>],
       findFirst_error = None,
       mapMore = (\<lambda>u. ()) \<rparr>"

section \<open>Strings: auxiliary facts\<close>

lemma isSpace_32: "isSpace 32"
  by (simp add: isSpace_def)

lemma trim_Nil: "trim [] = []"
  by (simp add: trim_def)

lemma trimmed_trim: "trimmed (trim s)"
proof -
  let ?a = "dropWhile isSpace s"
  let ?b = "dropWhile isSpace (rev ?a)"
  show ?thesis
  proof (cases "?b = []")
    case True
    then show ?thesis by (simp add: trim_def trimmed_def)
  next
    case False
    then have hb: "\<not> isSpace (hd ?b)"
      using hd_dropWhile by blast
    have "?a \<noteq> []"
      using False by (metis dropWhile.simps(1) rev.simps(1))
    then have ha: "\<not> isSpace (hd ?a)"
      using hd_dropWhile by blast
    obtain n where n: "?b = drop n (rev ?a)"
      by (metis dropWhile_eq_drop)
    have "rev ?b = take (length ?a - n) ?a"
      by (simp add: n rev_drop)
    moreover have "length ?a - n \<noteq> 0"
      using False n by auto
    ultimately have "hd (rev ?b) = hd ?a"
      by (metis hd_take gr0I)
    moreover have "last (rev ?b) = hd ?b"
      using False by (simp add: last_rev)
    ultimately show ?thesis
      using ha hb False by (simp add: trim_def trimmed_def)
  qed
qed

lemma trim_trimmed: "trimmed s \<Longrightarrow> trim s = s"
proof (cases "s = []")
  case True
  then show ?thesis by (simp add: trim_def)
next
  case False
  assume "trimmed s"
  with False have h: "\<not> isSpace (hd s)" and l: "\<not> isSpace (last s)"
    by (auto simp: trimmed_def)
  from False h have a: "dropWhile isSpace s = s"
    by (cases s) auto
  from False l have "\<not> isSpace (hd (rev s))"
    by (simp add: hd_rev)
  with False have "dropWhile isSpace (rev s) = rev s"
    by (cases "rev s") auto
  with a show ?thesis by (simp add: trim_def)
qed

lemma trim_idem: "trim (trim s) = trim s"
  by (rule trim_trimmed [OF trimmed_trim])

lemma collapseSpaces_fixed: "collapsed s \<Longrightarrow> \<not> isSpace (last s) \<or> s = [] \<Longrightarrow> collapseSpaces s = s"
proof (induction s rule: collapsed.induct)
  case 1
  then show ?case by simp
next
  case (2 c)
  then show ?case by simp
next
  case (3 c d cs)
  then show ?case by auto
qed

lemma collapsed_collapseSpaces_aux:
  "\<not> isSpace (last s) \<or> s = [] \<Longrightarrow>
     collapsed (collapseSpaces s) \<and>
     (\<not> isSpace (last (collapseSpaces s)) \<or> collapseSpaces s = []) \<and>
     (s \<noteq> [] \<longrightarrow> collapseSpaces s \<noteq> [] \<and>
        hd (collapseSpaces s) = (if isSpace (hd s) then 32 else hd s))"
proof (induction s rule: collapseSpaces.induct)
  case 1
  then show ?case by simp
next
  case (2 c cs)
  show ?case
  proof (cases "isSpace c")
    case True
    let ?r = "dropWhile isSpace cs"
    from 2(3) True have ne: "?r \<noteq> []"
      by (cases cs rule: rev_cases) (auto simp: dropWhile_append)
    then have hr: "\<not> isSpace (hd ?r)"
      using hd_dropWhile by blast
    obtain n where n: "?r = drop n cs"
      by (metis dropWhile_eq_drop)
    with ne have "last ?r = last cs" by simp
    moreover from ne have "cs \<noteq> []" by auto
    ultimately have "\<not> isSpace (last ?r) \<or> ?r = []"
      using 2(3) by simp
    from 2(1) [OF True this] ne hr
    have ih: "collapsed (collapseSpaces ?r)"
      "\<not> isSpace (last (collapseSpaces ?r)) \<or> collapseSpaces ?r = []"
      "collapseSpaces ?r \<noteq> []" "hd (collapseSpaces ?r) = hd ?r"
      by auto
    then obtain x xs where x: "collapseSpaces ?r = x # xs"
      by (cases "collapseSpaces ?r") auto
    with ih hr True show ?thesis by (auto simp: isSpace_32)
  next
    case False
    show ?thesis
    proof (cases "cs = []")
      case True
      with False show ?thesis by simp
    next
      case ne: False
      with 2(3) have "\<not> isSpace (last cs) \<or> cs = []" by simp
      from 2(2) [OF False this] ne
      have ih: "collapsed (collapseSpaces cs)"
        "\<not> isSpace (last (collapseSpaces cs)) \<or> collapseSpaces cs = []"
        "collapseSpaces cs \<noteq> []"
        by auto
      then obtain x xs where x: "collapseSpaces cs = x # xs"
        by (cases "collapseSpaces cs") auto
      with ih False show ?thesis by auto
    qed
  qed
qed

lemma collapseSpaces_trimmed:
  assumes "trimmed s"
  shows "trimmed (collapseSpaces s)" and "collapsed (collapseSpaces s)"
proof -
  from assms have l: "\<not> isSpace (last s) \<or> s = []"
    by (auto simp: trimmed_def)
  note aux = collapsed_collapseSpaces_aux [OF l]
  show "collapsed (collapseSpaces s)" using aux by simp
  show "trimmed (collapseSpaces s)"
  proof (cases "s = []")
    case True
    then show ?thesis by (simp add: trimmed_def)
  next
    case False
    with assms have "\<not> isSpace (hd s)" by (simp add: trimmed_def)
    with aux False show ?thesis by (auto simp: trimmed_def)
  qed
qed

lemma set_collapseSpaces: "set (collapseSpaces s) \<subseteq> insert 32 (set s)"
proof (induction s rule: collapseSpaces.induct)
  case 1
  then show ?case by simp
next
  case (2 c cs)
  have "set (dropWhile isSpace cs) \<subseteq> set cs"
    by (simp add: set_dropWhileD subsetI)
  with 2 show ?case by auto
qed

lemma set_trim: "set (trim s) \<subseteq> set s"
proof -
  have "set (trim s) = set (dropWhile isSpace (rev (dropWhile isSpace s)))"
    by (simp add: trim_def)
  also have "\<dots> \<subseteq> set (rev (dropWhile isSpace s))"
    by (meson set_dropWhileD subsetI)
  also have "\<dots> \<subseteq> set s"
    using set_dropWhileD by fastforce
  finally show ?thesis .
qed

lemma length_trim: "length (trim s) \<le> length s"
proof -
  have "length (trim s) = length (dropWhile isSpace (rev (dropWhile isSpace s)))"
    by (simp add: trim_def)
  also have "\<dots> \<le> length (rev (dropWhile isSpace s))"
    by (rule length_dropWhile_le)
  also have "\<dots> \<le> length s"
    by (simp add: length_dropWhile_le)
  finally show ?thesis .
qed

lemma tagMeta_free_sanitize: "\<forall>c \<in> set (sanitizeTagKeyword x). \<not> tagMeta c"
proof -
  let ?m = "map (\<lambda>c. if tagMeta c then 32 else c) x"
  have "set (sanitizeTagKeyword x) \<subseteq> insert 32 (set ?m)"
    unfolding sanitizeTagKeyword_def
    using set_collapseSpaces set_trim by (meson insert_mono subset_trans)
  moreover have "\<forall>c \<in> insert 32 (set ?m). \<not> tagMeta c"
    by (auto simp: tagMeta_def)
  ultimately show ?thesis by blast
qed

lemma map_id_on: "\<forall>c \<in> set s. \<not> P c \<Longrightarrow> map (\<lambda>c. if P c then d else c) s = s"
  by (induction s) auto

lemma escapeChars_allowed: "\<forall>c \<in> set s. allowed c \<Longrightarrow> escapeChars s = s"
  by (induction s) auto

section \<open>Properties of the Query Escaper\<close>

text \<open>
  C9. \<^verbatim>\<open>escapeRediSearchText\<close> and \<^verbatim>\<open>sanitizeTagKeyword\<close> are total functions from strings
  to strings (neither has a failing branch in the source, and the model gives each string
  exactly one result); \<^verbatim>\<open>sanitizeTagKeyword\<close> is idempotent on every string, and
  \<^verbatim>\<open>escapeRediSearchText\<close> is idempotent on every string made only of allow-list
  characters (ASCII letters and digits, white space, U+00C0 to U+1EF9, hyphen).
\<close>

theorem escaper_idempotent:
  "sanitizeTagKeyword (sanitizeTagKeyword x) = sanitizeTagKeyword x \<and>
   ((\<forall>c \<in> set y. allowed c) \<longrightarrow>
      escapeRediSearchText (escapeRediSearchText y) = escapeRediSearchText y)"
proof
  let ?t = "trim (map (\<lambda>c. if tagMeta c then 32 else c) x)"
  let ?r = "sanitizeTagKeyword x"
  have r: "?r = collapseSpaces ?t" by (simp add: sanitizeTagKeyword_def)
  have t: "trimmed ?r" and c: "collapsed ?r"
    unfolding r using collapseSpaces_trimmed [OF trimmed_trim] by blast+
  have "map (\<lambda>c. if tagMeta c then 32 else c) ?r = ?r"
    by (rule map_id_on [OF tagMeta_free_sanitize])
  moreover have "trim ?r = ?r"
    by (rule trim_trimmed [OF t])
  moreover have "collapseSpaces ?r = ?r"
    using collapseSpaces_fixed [OF c] t by (auto simp: trimmed_def)
  ultimately show "sanitizeTagKeyword ?r = ?r"
    by (simp add: sanitizeTagKeyword_def [of ?r])
next
  show "(\<forall>c \<in> set y. allowed c) \<longrightarrow>
      escapeRediSearchText (escapeRediSearchText y) = escapeRediSearchText y"
  proof
    assume a: "\<forall>c \<in> set y. allowed c"
    then have "\<forall>c \<in> set (trim y). allowed c"
      using set_trim by blast
    then show "escapeRediSearchText (escapeRediSearchText y) = escapeRediSearchText y"
      using a by (simp add: escapeRediSearchText_def escapeChars_allowed trim_idem)
  qed
qed


theorem escaper_idempotent_witness:
  "list_all allowed (js '' ao-dai 2 '') \<and>
   sanitizeTagKeyword (js ''{ao}  (dai)'') = js ''ao dai'' \<and>
   sanitizeTagKeyword (sanitizeTagKeyword (js ''{ao}  (dai)'')) = js ''ao dai'' \<and>
   escapeRediSearchText (js '' ao-dai 2 '') = js ''ao-dai 2'' \<and>
   escapeRediSearchText (escapeRediSearchText (js '' ao-dai 2 '')) = js ''ao-dai 2''"
proof -
  have h: "\<forall>c \<in> set (js '' ao-dai 2 ''). allowed c"
    by (simp add: js_def allowed_def isSpace_def)
  have s: "sanitizeTagKeyword (js ''{ao}  (dai)'') = js ''ao dai''"
    by (simp add: sanitizeTagKeyword_def js_def tagMeta_def trim_def isSpace_def)
  have e: "escapeRediSearchText (js '' ao-dai 2 '') = js ''ao-dai 2''"
    by (simp add: escapeRediSearchText_def js_def allowed_def trim_def isSpace_def)
  from escaper_idempotent [of "js ''{ao}  (dai)''" "js '' ao-dai 2 ''"] h s e
  show ?thesis by (simp add: list_all_iff)
qed

section \<open>Properties of the Tag Sanitizer\<close>

lemma distinct_foldl_setAdd: "distinct acc \<Longrightarrow> distinct (foldl setAdd acc xs)"
  by (induction xs arbitrary: acc) (auto simp: setAdd_def)

lemma set_foldl_setAdd: "set (foldl setAdd acc xs) = set acc \<union> set xs"
  by (induction xs arbitrary: acc) (auto simp: setAdd_def)

lemma prefix_foldl_setAdd: "prefix acc (foldl setAdd acc xs)"
proof (induction xs arbitrary: acc)
  case Nil
  then show ?case by simp
next
  case (Cons x xs)
  have "prefix acc (setAdd acc x)"
    by (simp add: setAdd_def)
  also have "prefix (setAdd acc x) (foldl setAdd (setAdd acc x) xs)"
    by (rule Cons.IH)
  finally show ?case by simp
qed

lemma distinct_uniq: "distinct (uniq xs)"
  by (simp add: uniq_def distinct_foldl_setAdd)

lemma set_uniq: "set (uniq xs) = set xs"
  by (simp add: uniq_def set_foldl_setAdd)

lemma uniq_take_prefix: "prefix (uniq (take n xs)) (uniq xs)"
proof -
  have "uniq xs = foldl setAdd (uniq (take n xs)) (drop n xs)"
    unfolding uniq_def by (metis append_take_drop_id foldl_append)
  then show ?thesis
    by (metis prefix_foldl_setAdd)
qed

text \<open>First-seen order: each initial part of the input is covered by an initial part of the result.\<close>

lemma uniq_first_seen: "\<exists>m. set (take m (uniq xs)) = set (take n xs)"
proof -
  from uniq_take_prefix [of n xs] obtain zs where "uniq xs = uniq (take n xs) @ zs"
    by (auto simp: prefix_def)
  then have "take (length (uniq (take n xs))) (uniq xs) = uniq (take n xs)"
    by simp
  then show ?thesis
    by (metis set_uniq)
qed

lemma cleanTag_not_dangerous: "c \<in> set (cleanTag s) \<Longrightarrow> \<not> dangerous c"
proof -
  assume c: "c \<in> set (cleanTag s)"
  obtain m where m: "cleanTag s = collapseSpaces (trim (map (\<lambda>c. if dangerous c then 32 else c) m))"
    by (simp add: cleanTag_def Let_def)
  let ?m = "map (\<lambda>c. if dangerous c then 32 else c) m"
  have "set (cleanTag s) \<subseteq> insert 32 (set ?m)"
    unfolding m using set_collapseSpaces set_trim by (meson insert_mono subset_trans)
  moreover have "\<forall>c \<in> insert 32 (set ?m). \<not> dangerous c"
    by (auto simp: dangerous_def)
  ultimately show ?thesis using c by blast
qed

lemma cleanedTags_member:
  "t \<in> set (cleanedTags tags) \<Longrightarrow> t \<noteq> [] \<and> length t < 50 \<and> (\<forall>c \<in> set t. \<not> dangerous c)"
  by (auto simp: cleanedTags_def cleanTag_not_dangerous split: tagElem.splits)

lemma set_join: "set (join sep xs) \<subseteq> set sep \<union> \<Union> (set ` set xs)"
  by (induction sep xs rule: join.induct) auto

lemma cleanSystemTags_tagList: "cleanSystemTags parse inp = join (js '','') (tagList parse inp)"
  by (simp add: cleanSystemTags_def tagList_def Let_def cleanedTags_def uniq_def)

lemmas tag_eval =
  js_def cleanSystemTags_def normalizeTags_def cleanedTags_def cleanTag_def
  decodeURIComponent_def dangerous_def trim_def isSpace_def isLineTerminator_def uniq_def
  setAdd_def hexVal_def isCont_def

text \<open>
  What holds of every raw tag input (an array, a string that \<^verbatim>\<open>JSON.parse\<close> turns into an
  array, a string that it rejects and that is split at commas, or anything else):
  \<^verbatim>\<open>cleanSystemTags\<close> returns a string, the comma-join of the array \<open>tagList\<close>, whose members
  contain no dangerous character, are not empty, are shorter than 50 code units, are
  pairwise distinct and stand in the order in which the cleaned candidates were first seen;
  the returned string as a whole contains no dangerous character either. An input that is
  neither an array nor a string, and a string that parses to something that is not an
  array, give the empty string. The input \<^verbatim>\<open>["  http://x?q=shoes  ", "shoes", "{bad}tag"]\<close>
  gives \<^verbatim>\<open>"shoes,bad tag"\<close>.
\<close>

lemma cleanSystemTags_members:
  "cleanSystemTags parse inp = join (js '','') (tagList parse inp) \<and>
   distinct (tagList parse inp) \<and>
   (\<forall>t \<in> set (tagList parse inp).
      t \<noteq> [] \<and> length t < 50 \<and> (\<forall>c \<in> set t. \<not> dangerous c)) \<and>
   (\<forall>n. \<exists>m. set (take m (tagList parse inp)) =
             set (take n (cleanedTags (normalizeTags parse inp)))) \<and>
   (\<forall>c \<in> set (cleanSystemTags parse inp). \<not> dangerous c) \<and>
   cleanSystemTags parse OtherInput = [] \<and>
   (parse s = ParsedOther \<longrightarrow> cleanSystemTags parse (StringInput s) = []) \<and>
   cleanSystemTags parse
     (ArrayInput [TStr (js ''  http://x?q=shoes  ''), TStr (js ''shoes''), TStr (js ''{bad}tag'')])
     = js ''shoes,bad tag''"
proof -
  let ?ts = "tagList parse inp"
  have mem: "\<forall>t \<in> set ?ts. t \<noteq> [] \<and> length t < 50 \<and> (\<forall>c \<in> set t. \<not> dangerous c)"
    using cleanedTags_member by (auto simp: tagList_def set_uniq)
  have out: "\<forall>c \<in> set (cleanSystemTags parse inp). \<not> dangerous c"
  proof
    fix c
    assume "c \<in> set (cleanSystemTags parse inp)"
    then have "c \<in> set (js '','') \<union> \<Union> (set ` set ?ts)"
      using set_join [of "js '',''" ?ts] by (auto simp: cleanSystemTags_tagList)
    then show "\<not> dangerous c"
    proof
      assume "c \<in> set (js '','')"
      then show ?thesis by (simp add: js_def dangerous_def)
    next
      assume "c \<in> \<Union> (set ` set ?ts)"
      then show ?thesis using mem by blast
    qed
  qed
  have ex: "cleanSystemTags parse
     (ArrayInput [TStr (js ''  http://x?q=shoes  ''), TStr (js ''shoes''), TStr (js ''{bad}tag'')])
     = js ''shoes,bad tag''"
    by (simp add: tag_eval)
  have other: "cleanSystemTags parse OtherInput = []"
    by (simp add: cleanSystemTags_def normalizeTags_def)
  have nonarr: "parse s = ParsedOther \<longrightarrow> cleanSystemTags parse (StringInput s) = []"
    by (simp add: cleanSystemTags_def normalizeTags_def)
  have first: "\<forall>n. \<exists>m. set (take m ?ts) = set (take n (cleanedTags (normalizeTags parse inp)))"
    unfolding tagList_def using uniq_first_seen by blast
  have dist: "distinct ?ts"
    by (simp add: tagList_def distinct_uniq)
  from cleanSystemTags_tagList dist mem first out other nonarr ex
  show ?thesis by (intro conjI)
qed

text \<open>
  C3 at the comma-delimited string \<^verbatim>\<open>x%2Cx,%2C\<close> and at the array \<^verbatim>\<open>["a,,b", "b"]\<close>. The
  string is split at its comma before the pieces are decoded, the decoding brings commas
  back, and no later step removes a comma; the members of the array keep theirs. The
  returned strings are \<^verbatim>\<open>x,x,,\<close> and \<^verbatim>\<open>a,,b,b\<close>: read as comma-joined lists they have
  empty elements and repeated elements.
\<close>

theorem cleanSystemTags_comma_elements:
  "cleanSystemTags noJson (StringInput (js ''x%2Cx,%2C'')) = js ''x,x,,'' \<and>
   splitOn 44 (js ''x,x,,'') = [js ''x'', js ''x'', [], []] \<and>
   cleanSystemTags noJson (ArrayInput [TStr (js ''a,,b''), TStr (js ''b'')]) = js ''a,,b,b'' \<and>
   splitOn 44 (js ''a,,b,b'') = [js ''a'', [], js ''b'', js ''b'']"
  by (simp add: tag_eval noJson_def)

section \<open>Incremental Sync against Full Sync\<close>

lemma find_by_id: "find (\<lambda>p. p_id p = pid) db = Some p \<Longrightarrow> p \<in> set db \<and> p_id p = pid"
  by (induction db) (auto split: if_splits)

lemma incr_full_fields:
  "f \<noteq> js ''createdAt'' \<Longrightarrow> map_of (incrFields parse p) f = map_of (fullFields parse p) f"
  by (simp add: incrFields_def fullFields_def incrJson_def fullJson_def)

lemma incr_full_suggestion: "incrSuggestion p = fullSuggestion p"
  by (simp add: incrSuggestion_def fullSuggestion_def)

lemma full_sync_item:
  "p \<in> set db \<Longrightarrow> p_status p = ACTIVE \<Longrightarrow>
     HSet (js ''product:'' @ p_id p) (fullFields parse p) \<in> set (fst (syncAllProductsToRedis parse db)) \<and>
     fullSuggestion p \<in> set (fst (syncAllProductsToRedis parse db))"
  by (auto simp: syncAllProductsToRedis_def Let_def)

text \<open>
  The creation timestamp is the one field in which the two field maps differ: Full Sync
  writes it (as \<^verbatim>\<open>NaN\<close>), Incremental Sync does not name it.
\<close>

lemma createdAt_only_in_full:
  "map_of (incrFields parse p) (js ''createdAt'') = None \<and>
   map_of (fullFields parse p) (js ''createdAt'') = Some FNaN"
  by (simp add: incrFields_def fullFields_def js_def)

text \<open>
  C5, as the code has it. When the row of the identifier is gone, Incremental Sync sends
  nothing. When it exists, Incremental Sync sends one \<^verbatim>\<open>HSET\<close> for the key of the item,
  with name, price, salesCount, rating, the sanitized location (or the sentinel), status,
  id, slug, the JSON mirror and the cleaned systemTags of the row read back from the
  source store, and one suggestion with the score \<open>max(salesCount, 1)\<close>. When moreover the
  item is ACTIVE, Full Sync on the same table sends an \<^verbatim>\<open>HSET\<close> for the same key whose
  field map agrees with it on every field other than the creation timestamp, and the same
  suggestion.
\<close>

theorem incremental_sync_as_full_sync:
  "(find (\<lambda>p. p_id p = pid) db = None \<longrightarrow> syncProductToRedis parse db pid = []) \<and>
   (find (\<lambda>p. p_id p = pid) db = Some p \<longrightarrow>
      syncProductToRedis parse db pid =
        [HSet (js ''product:'' @ p_id p) (incrFields parse p), incrSuggestion p] \<and>
      incrSuggestion p =
        SugAdd SUGGESTION_KEY (p_name p) (numStr (max (orNum (p_salesCount p) 0) 1))
          \<lparr> sp_id = p_id p, sp_slug = p_slug p, sp_price = p_price p,
            sp_image = firstImage (p_images p) \<rparr> \<and>
      (p_status p = ACTIVE \<longrightarrow>
         HSet (js ''product:'' @ p_id p) (fullFields parse p)
           \<in> set (fst (syncAllProductsToRedis parse db)) \<and>
         (\<forall>f. f \<noteq> js ''createdAt'' \<longrightarrow>
            map_of (incrFields parse p) f = map_of (fullFields parse p) f) \<and>
         incrSuggestion p \<in> set (fst (syncAllProductsToRedis parse db))))"
proof (intro conjI impI)
  assume "find (\<lambda>p. p_id p = pid) db = None"
  then show "syncProductToRedis parse db pid = []"
    by (simp add: syncProductToRedis_def)
next
  assume "find (\<lambda>p. p_id p = pid) db = Some p"
  then show "syncProductToRedis parse db pid =
        [HSet (js ''product:'' @ p_id p) (incrFields parse p), incrSuggestion p]"
    by (simp add: syncProductToRedis_def)
next
  show "incrSuggestion p =
        SugAdd SUGGESTION_KEY (p_name p) (numStr (max (orNum (p_salesCount p) 0) 1))
          \<lparr> sp_id = p_id p, sp_slug = p_slug p, sp_price = p_price p,
            sp_image = firstImage (p_images p) \<rparr>"
  proof -
    have "(case p_salesCount p of Some n \<Rightarrow> if n > 0 then n else 1 | None \<Rightarrow> 1)
            = max (orNum (p_salesCount p) 0) 1"
      by (simp add: orNum_def max_def split: option.splits)
    then show ?thesis
      by (simp add: incrSuggestion_def)
  qed
next
  assume "find (\<lambda>p. p_id p = pid) db = Some p" and "p_status p = ACTIVE"
  then show "HSet (js ''product:'' @ p_id p) (fullFields parse p)
           \<in> set (fst (syncAllProductsToRedis parse db))"
    using find_by_id full_sync_item by blast
next
  show "\<forall>f. f \<noteq> js ''createdAt'' \<longrightarrow>
            map_of (incrFields parse p) f = map_of (fullFields parse p) f"
    using incr_full_fields by blast
next
  assume "find (\<lambda>p. p_id p = pid) db = Some p" and "p_status p = ACTIVE"
  then show "incrSuggestion p \<in> set (fst (syncAllProductsToRedis parse db))"
    using find_by_id full_sync_item incr_full_suggestion by metis
qed

theorem incremental_sync_as_full_sync_witness:
  "find (\<lambda>p. p_id p = js ''1'') [inactiveItem\<lparr>p_status := ACTIVE\<rparr>]
     = Some (inactiveItem\<lparr>p_status := ACTIVE\<rparr>) \<and>
   find (\<lambda>p. p_id p = js ''2'') [inactiveItem\<lparr>p_status := ACTIVE\<rparr>] = None \<and>
   syncProductToRedis noJson [inactiveItem\<lparr>p_status := ACTIVE\<rparr>] (js ''2'') = [] \<and>
   syncProductToRedis noJson [inactiveItem\<lparr>p_status := ACTIVE\<rparr>] (js ''1'') =
     [HSet (js ''product:1'') (incrFields noJson (inactiveItem\<lparr>p_status := ACTIVE\<rparr>)),
      incrSuggestion (inactiveItem\<lparr>p_status := ACTIVE\<rparr>)] \<and>
   HSet (js ''product:1'') (fullFields noJson (inactiveItem\<lparr>p_status := ACTIVE\<rparr>))
     \<in> set (fst (syncAllProductsToRedis noJson [inactiveItem\<lparr>p_status := ACTIVE\<rparr>])) \<and>
   map_of (incrFields noJson (inactiveItem\<lparr>p_status := ACTIVE\<rparr>)) (js ''status'')
     = Some (FStr ACTIVE) \<and>
   map_of (fullFields noJson (inactiveItem\<lparr>p_status := ACTIVE\<rparr>)) (js ''status'')
     = Some (FStr ACTIVE)"
proof -
  let ?p = "inactiveItem\<lparr>p_status := ACTIVE\<rparr>"
  have f1: "find (\<lambda>p. p_id p = js ''1'') [?p] = Some ?p"
    by (simp add: inactiveItem_def)
  have f2: "find (\<lambda>p. p_id p = js ''2'') [?p] = None"
    by (simp add: inactiveItem_def js_def)
  have a: "p_status ?p = ACTIVE" by simp
  have i: "p_id ?p = js ''1''" by (simp add: inactiveItem_def)
  have k: "js ''product:'' @ js ''1'' = js ''product:1''" by (simp add: js_def)
  have ne: "js ''status'' \<noteq> js ''createdAt''" by (simp add: js_def)
  have s: "map_of (incrFields noJson ?p) (js ''status'') = Some (FStr ACTIVE)"
    by (simp add: incrFields_def js_def)
  from incremental_sync_as_full_sync [where pid = "js ''1''" and db = "[?p]" and p = ?p and parse = noJson]
       incremental_sync_as_full_sync [where pid = "js ''2''" and db = "[?p]" and p = ?p and parse = noJson]
       f1 f2 a i k ne s
  show ?thesis by (simp del: fst_conv)
qed

text \<open>
  C5, as stated, at an item whose row exists with a status other than ACTIVE: Incremental
  Sync writes its index entry and its suggestion, Full Sync on the same table writes
  nothing for it.
\<close>

theorem incremental_sync_inactive_counterexample:
  "find (\<lambda>p. p_id p = js ''1'') [inactiveItem] = Some inactiveItem \<and>
   syncProductToRedis noJson [inactiveItem] (js ''1'') =
     [HSet (js ''product:1'') (incrFields noJson inactiveItem), incrSuggestion inactiveItem] \<and>
   fst (syncAllProductsToRedis noJson [inactiveItem]) = [Del SUGGESTION_KEY]"
  by (simp add: syncProductToRedis_def syncAllProductsToRedis_def inactiveItem_def ACTIVE_def js_def)

section \<open>Properties of the Query Planner\<close>

lemma dbPath_ft_search: "dbPath (env\<lparr>ft_search := f\<rparr>) q = dbPath env q"
  by (simp add: dbPath_def cong: sum.case_cong option.case_cong)

lemma cacheKey_ft_search: "cacheKey (env\<lparr>ft_search := f\<rparr>) q = cacheKey env q"
  by (simp add: cacheKey_def)

lemma fallbackAndCache_ft_search:
  "fallbackAndCache (env\<lparr>ft_search := f\<rparr>) kv q = fallbackAndCache env kv q"
  by (simp add: fallbackAndCache_def dbPath_ft_search cacheKey_ft_search
           cong: sum.case_cong option.case_cong if_cong)

lemma findAllPublic_browse:
  "\<not> shouldUseRedis q \<Longrightarrow> findAllPublic env kv q = fallbackAndCache env kv q"
  by (simp add: findAllPublic_def)

lemma findAllPublic_index_page:
  "shouldUseRedis q \<Longrightarrow> indexPath env q = Inr pg \<Longrightarrow>
     findAllPublic env kv q = \<lparr> out_result = Inr pg, out_sets = [], out_cache = kv \<rparr>"
  by (simp add: findAllPublic_def)

lemma findAllPublic_index_error:
  "indexPath env q = Inl e \<Longrightarrow> findAllPublic env kv q = fallbackAndCache env kv q"
  by (simp add: findAllPublic_def)

lemma shouldUseRedis_iff:
  "shouldUseRedis q \<longleftrightarrow>
     ((\<exists>s. q_search q = Some s \<and> trim s \<noteq> []) \<or>
      (\<exists>t. q_tag q = Some t \<and> t \<noteq> []) \<or>
      (\<exists>n. q_minPrice q = Some (Num n) \<and> n \<noteq> 0) \<or>
      (\<exists>n. q_maxPrice q = Some (Num n) \<and> n \<noteq> 0) \<or>
      (\<exists>n. q_rating q = Some (Num n) \<and> n \<noteq> 0) \<or>
      (\<exists>ls. q_locations q = Some ls \<and> ls \<noteq> []))"
  by (auto simp: shouldUseRedis_def searchKeyword_def truthyStr_def truthyNum_def trim_Nil
           split: option.splits jsnum.splits)

text \<open>
  The decision of \<^verbatim>\<open>findAllPublic\<close>. The index path is taken if and only if the trimmed
  search term is not empty, or the tag is a non-empty string, or the minimum price, the
  maximum price or the rating is a number other than zero and \<^verbatim>\<open>NaN\<close>, or the list of
  locations is not empty. Otherwise the outcome does not depend on what the index would
  reply. When the path is taken and returns a page, that page is the result.
\<close>

lemma index_path_decision:
  "(shouldUseRedis q \<longleftrightarrow>
     ((\<exists>s. q_search q = Some s \<and> trim s \<noteq> []) \<or>
      (\<exists>t. q_tag q = Some t \<and> t \<noteq> []) \<or>
      (\<exists>n. q_minPrice q = Some (Num n) \<and> n \<noteq> 0) \<or>
      (\<exists>n. q_maxPrice q = Some (Num n) \<and> n \<noteq> 0) \<or>
      (\<exists>n. q_rating q = Some (Num n) \<and> n \<noteq> 0) \<or>
      (\<exists>ls. q_locations q = Some ls \<and> ls \<noteq> []))) \<and>
   (\<not> shouldUseRedis q \<longrightarrow>
      findAllPublic env kv q = fallbackAndCache env kv q \<and>
      findAllPublic (env\<lparr>ft_search := f\<rparr>) kv q = findAllPublic env kv q) \<and>
   (shouldUseRedis q \<longrightarrow>
      findAllPublic env kv q =
        (case indexPath env q of
           Inr pg \<Rightarrow> \<lparr> out_result = Inr pg, out_sets = [], out_cache = kv \<rparr>
         | Inl e \<Rightarrow> fallbackAndCache env kv q))"
proof (intro conjI impI)
  show "shouldUseRedis q \<longleftrightarrow>
     ((\<exists>s. q_search q = Some s \<and> trim s \<noteq> []) \<or>
      (\<exists>t. q_tag q = Some t \<and> t \<noteq> []) \<or>
      (\<exists>n. q_minPrice q = Some (Num n) \<and> n \<noteq> 0) \<or>
      (\<exists>n. q_maxPrice q = Some (Num n) \<and> n \<noteq> 0) \<or>
      (\<exists>n. q_rating q = Some (Num n) \<and> n \<noteq> 0) \<or>
      (\<exists>ls. q_locations q = Some ls \<and> ls \<noteq> []))"
    by (rule shouldUseRedis_iff)
next
  assume "\<not> shouldUseRedis q"
  then show "findAllPublic env kv q = fallbackAndCache env kv q"
    by (rule findAllPublic_browse)
next
  assume "\<not> shouldUseRedis q"
  then show "findAllPublic (env\<lparr>ft_search := f\<rparr>) kv q = findAllPublic env kv q"
    by (simp add: findAllPublic_browse fallbackAndCache_ft_search)
next
  assume "shouldUseRedis q"
  then show "findAllPublic env kv q =
        (case indexPath env q of
           Inr pg \<Rightarrow> \<lparr> out_result = Inr pg, out_sets = [], out_cache = kv \<rparr>
         | Inl e \<Rightarrow> fallbackAndCache env kv q)"
    by (simp add: findAllPublic_def split: sum.splits)
qed

lemmas planner_eval =
  findAllPublic_def fallbackAndCache_def indexPath_def dbPath_def shouldUseRedis_def
  searchKeyword_def truthyStr_def truthyNum_def cacheKey_def emptyPage_def pageOf_def
  limitOf_def skipOf_def orNum_def numOr_def ceilDiv_def mapRow_def shopCity_def lastPage_def
  jsonStrOf_def at_def truthy_def

text \<open>
  C4 at a request whose only parameter is a maximum price of zero. The parameter is
  present, but the decision tests its truth value: the request does not take the index
  path, whatever the index would reply, and the source store is queried without any price
  bound.
\<close>

theorem zero_bound_bypasses_index:
  "q_maxPrice (browseAll\<lparr>q_maxPrice := Some (Num 0)\<rparr>) = Some (Num 0) \<and>
   \<not> shouldUseRedis (browseAll\<lparr>q_maxPrice := Some (Num 0)\<rparr>) \<and>
   w_price (dbWhere (browseAll\<lparr>q_maxPrice := Some (Num 0)\<rparr>)) = None \<and>
   findAllPublic (allUp\<lparr>ft_search := (\<lambda>c. Inl TypeError)\<rparr>) Map.empty
       (browseAll\<lparr>q_maxPrice := Some (Num 0)\<rparr>) =
     findAllPublic allUp Map.empty (browseAll\<lparr>q_maxPrice := Some (Num 0)\<rparr>) \<and>
   out_result (findAllPublic allUp Map.empty (browseAll\<lparr>q_maxPrice := Some (Num 0)\<rparr>)) =
     dbPath allUp (browseAll\<lparr>q_maxPrice := Some (Num 0)\<rparr>)"
proof -
  let ?q = "browseAll\<lparr>q_maxPrice := Some (Num 0)\<rparr>"
  have n: "\<not> shouldUseRedis ?q"
    by (simp add: shouldUseRedis_def searchKeyword_def truthyStr_def truthyNum_def browseAll_def)
  have w: "w_price (dbWhere ?q) = None"
    by (simp add: dbWhere_def truthyNum_def browseAll_def)
  have r: "out_result (fallbackAndCache allUp Map.empty ?q) = dbPath allUp ?q"
    by (simp add: fallbackAndCache_def dbPath_def truthyStr_def allUp_def browseAll_def
          mapRow_def activeItem_def inactiveItem_def)
  from n w r show ?thesis
    by (simp add: findAllPublic_browse fallbackAndCache_ft_search)
qed

text \<open>The index query that the same request would send: the bound is a clause of it.\<close>

lemma zero_bound_index_query:
  "ftQuery (browseAll\<lparr>q_maxPrice := Some (Num 0)\<rparr>) = js ''@status:{ACTIVE} @price:[-Infinity 0]''"
  by (simp add: ftQuery_def conditions_def searchKeyword_def truthyStr_def truthyNum_def
        browseAll_def showNum_def numStr_def natDigits.simps js_def)

section \<open>The Result Cache in \<^verbatim>\<open>findAllPublic\<close>\<close>

lemma fallbackAndCache_sets:
  "out_sets (fallbackAndCache env kv q) =
     (case dbPath env q of
        Inl e \<Rightarrow> []
      | Inr pg \<Rightarrow>
          if pg_data pg \<noteq> [] \<and> \<not> truthyStr (q_search q) then [(cacheKey env q, pg, 60)]
          else [])"
  by (cases "dbPath env q"; cases "redis_set env (cacheKey env q)")
     (simp_all add: fallbackAndCache_def)

lemma fallbackAndCache_cache:
  "out_cache (fallbackAndCache env kv q) =
     (case dbPath env q of
        Inl e \<Rightarrow> kv
      | Inr pg \<Rightarrow>
          if pg_data pg \<noteq> [] \<and> \<not> truthyStr (q_search q) \<and> redis_set env (cacheKey env q) = None
          then kv(cacheKey env q \<mapsto> (pg, 60))
          else kv)"
  by (cases "dbPath env q"; cases "redis_set env (cacheKey env q)")
     (simp_all add: fallbackAndCache_def)

lemma fallbackAndCache_result:
  "out_result (fallbackAndCache env kv q) =
     (case dbPath env q of
        Inl e \<Rightarrow> Inr (emptyPage q)
      | Inr pg \<Rightarrow>
          if pg_data pg \<noteq> [] \<and> \<not> truthyStr (q_search q)
          then (case redis_set env (cacheKey env q) of Some e \<Rightarrow> Inl e | None \<Rightarrow> Inr pg)
          else Inr pg)"
  by (cases "dbPath env q"; cases "redis_set env (cacheKey env q)")
     (simp_all add: fallbackAndCache_def)

text \<open>Whether step 1 returned a page.\<close>

lemma findAllPublic_cases:
  "(shouldUseRedis q \<and> (\<exists>pg. indexPath env q = Inr pg \<and>
       findAllPublic env kv q = \<lparr> out_result = Inr pg, out_sets = [], out_cache = kv \<rparr>)) \<or>
   ((\<not> shouldUseRedis q \<or> (\<exists>e. indexPath env q = Inl e)) \<and>
       findAllPublic env kv q = fallbackAndCache env kv q)"
  by (cases "indexPath env q") (auto simp: findAllPublic_def)

text \<open>
  C8. A request with a search term (a non-empty \<^verbatim>\<open>search\<close> string) sends no \<^verbatim>\<open>SET\<close> and
  leaves the cache as it was; so does every call that returns a page with an empty data
  list, and every call whose page comes from the index. A \<^verbatim>\<open>SET\<close> is sent exactly when
  the page was produced by the source store (the index path was not taken or threw), its
  data list is not empty and there is no search term; it is then the only one, on the key
  of the request, with that page and a time to live of 60 seconds, and it is the entry of
  the cache afterwards when Redis accepts it.
\<close>

theorem cache_write_rule:
  "(truthyStr (q_search q) \<longrightarrow>
      out_sets (findAllPublic env kv q) = [] \<and> out_cache (findAllPublic env kv q) = kv) \<and>
   (\<forall>pg. out_result (findAllPublic env kv q) = Inr pg \<and> pg_data pg = [] \<longrightarrow>
      out_sets (findAllPublic env kv q) = [] \<and> out_cache (findAllPublic env kv q) = kv) \<and>
   (\<forall>pg. shouldUseRedis q \<and> indexPath env q = Inr pg \<longrightarrow>
      out_result (findAllPublic env kv q) = Inr pg \<and>
      out_sets (findAllPublic env kv q) = [] \<and> out_cache (findAllPublic env kv q) = kv) \<and>
   (out_sets (findAllPublic env kv q) \<noteq> [] \<longleftrightarrow>
      (\<not> shouldUseRedis q \<or> (\<exists>e. indexPath env q = Inl e)) \<and>
      (\<exists>pg. dbPath env q = Inr pg \<and> pg_data pg \<noteq> []) \<and> \<not> truthyStr (q_search q)) \<and>
   (\<forall>pg. (\<not> shouldUseRedis q \<or> (\<exists>e. indexPath env q = Inl e)) \<and>
         dbPath env q = Inr pg \<and> pg_data pg \<noteq> [] \<and> \<not> truthyStr (q_search q) \<longrightarrow>
      out_sets (findAllPublic env kv q) = [(cacheKey env q, pg, 60)] \<and>
      (redis_set env (cacheKey env q) = None \<longrightarrow>
         out_result (findAllPublic env kv q) = Inr pg \<and>
         out_cache (findAllPublic env kv q) = kv(cacheKey env q \<mapsto> (pg, 60))))"
proof -
  note fb = fallbackAndCache_sets fallbackAndCache_cache fallbackAndCache_result
  from findAllPublic_cases [of q env kv]
  consider (index) pg where "shouldUseRedis q" "indexPath env q = Inr pg"
      "findAllPublic env kv q = \<lparr> out_result = Inr pg, out_sets = [], out_cache = kv \<rparr>"
    | (fallback) "\<not> shouldUseRedis q \<or> (\<exists>e. indexPath env q = Inl e)"
      "findAllPublic env kv q = fallbackAndCache env kv q"
    by blast
  then show ?thesis
  proof cases
    case index
    then show ?thesis by simp
  next
    case fallback
    from fallback(1) have c: "\<not> (\<exists>pg. shouldUseRedis q \<and> indexPath env q = Inr pg)"
      by auto
    show ?thesis
      using fallback(1) c unfolding fallback(2) fb
      by (cases "dbPath env q") (auto simp: emptyPage_def)
  qed
qed

theorem cache_write_rule_witness:
  "\<not> shouldUseRedis browseAll \<and> \<not> truthyStr (q_search browseAll) \<and>
   dbPath allUp browseAll = Inr (projr (dbPath allUp browseAll)) \<and>
   length (pg_data (projr (dbPath allUp browseAll))) = 1 \<and>
   redis_set allUp (cacheKey allUp browseAll) = None \<and>
   out_sets (findAllPublic allUp Map.empty browseAll) =
     [(js ''search:res:0f'', projr (dbPath allUp browseAll), 60)] \<and>
   out_cache (findAllPublic allUp Map.empty browseAll) =
     [js ''search:res:0f'' \<mapsto> (projr (dbPath allUp browseAll), 60)] \<and>
   truthyStr (q_search (browseAll\<lparr>q_search := Some (js ''ao'')\<rparr>)) \<and>
   out_sets (findAllPublic allUp Map.empty (browseAll\<lparr>q_search := Some (js ''ao'')\<rparr>)) = [] \<and>
   shouldUseRedis (browseAll\<lparr>q_tag := Some (js ''ao'')\<rparr>) \<and>
   out_sets (findAllPublic allUp Map.empty (browseAll\<lparr>q_tag := Some (js ''ao'')\<rparr>)) = []"
proof -
  let ?s = "browseAll\<lparr>q_search := Some (js ''ao'')\<rparr>"
  let ?t = "browseAll\<lparr>q_tag := Some (js ''ao'')\<rparr>"
  have n: "\<not> shouldUseRedis browseAll" "\<not> truthyStr (q_search browseAll)"
    by (simp_all add: shouldUseRedis_def searchKeyword_def truthyStr_def truthyNum_def browseAll_def)
  have d: "dbPath allUp browseAll = Inr (projr (dbPath allUp browseAll))"
    "length (pg_data (projr (dbPath allUp browseAll))) = 1"
    by (simp_all add: dbPath_def allUp_def mapRow_def activeItem_def inactiveItem_def)
  have r: "redis_set allUp (cacheKey allUp browseAll) = None"
    by (simp add: allUp_def)
  have k: "cacheKey allUp browseAll = js ''search:res:0f''"
    by (simp add: cacheKey_def allUp_def js_def)
  have s: "truthyStr (q_search ?s)"
    by (simp add: truthyStr_def js_def)
  have t: "shouldUseRedis ?t"
    by (simp add: shouldUseRedis_def truthyStr_def js_def)
  have i: "indexPath allUp ?t = Inr (projr (indexPath allUp ?t))"
    by (simp add: planner_eval allUp_def browseAll_def js_def)
  from d have ne: "pg_data (projr (dbPath allUp browseAll)) \<noteq> []"
    by auto
  note th = cache_write_rule [where env = allUp and kv = Map.empty]
  from th [where q = browseAll] n d(1) ne r k
  have 1: "out_sets (findAllPublic allUp Map.empty browseAll) =
     [(js ''search:res:0f'', projr (dbPath allUp browseAll), 60)]"
    "out_cache (findAllPublic allUp Map.empty browseAll) =
     [js ''search:res:0f'' \<mapsto> (projr (dbPath allUp browseAll), 60)]"
    by metis+
  from th [where q = ?s] s
  have 2: "out_sets (findAllPublic allUp Map.empty ?s) = []"
    by blast
  from th [where q = ?t] t i
  have 3: "out_sets (findAllPublic allUp Map.empty ?t) = []"
    by blast
  from n d r 1 2 3 s t show ?thesis by simp
qed

section \<open>The fallback and the caller\<close>

text \<open>What step 2 gives when step 1 has thrown, whatever it threw.\<close>

lemma fallback_after_index_error:
  "shouldUseRedis q \<Longrightarrow> indexPath env q = Inl e \<Longrightarrow>
     out_result (findAllPublic env kv q) =
       (case dbPath env q of
          Inl dbErr \<Rightarrow> Inr (emptyPage q)
        | Inr pg \<Rightarrow>
            if pg_data pg \<noteq> [] \<and> \<not> truthyStr (q_search q)
            then (case redis_set env (cacheKey env q) of Some e \<Rightarrow> Inl e | None \<Rightarrow> Inr pg)
            else Inr pg)"
  by (simp add: findAllPublic_index_error fallbackAndCache_result)

text \<open>A reply that is nil makes step 1 throw; an empty array does not.\<close>

lemma index_reply_nil_or_empty:
  "ft_search env (ftCall q) = Inr VNull \<Longrightarrow> indexPath env q = Inl TypeError"
  "ft_search env (ftCall q) = Inr (VArr []) \<Longrightarrow>
     indexPath env q =
       Inr \<lparr> pg_data = [],
             pg_meta = \<lparr> mt_total = None, mt_page = pageOf q, mt_limit = limitOf q,
                         mt_last_page = None \<rparr> \<rparr>"
  by (simp_all add: indexPath_def at_def lastPage_def)

text \<open>
  The price bounds of the two paths differ at zero: the index query tests the bounds for
  \<^verbatim>\<open>undefined\<close>, the fallback for their truth value.
\<close>

lemma price_bound_zero:
  "ftQuery (browseAll\<lparr>q_tag := Some (js ''ao''), q_maxPrice := Some (Num 0)\<rparr>) =
     js ''@status:{ACTIVE} @systemTags:{ao} @price:[-Infinity 0]'' \<and>
   w_price (dbWhere (browseAll\<lparr>q_tag := Some (js ''ao''), q_maxPrice := Some (Num 0)\<rparr>)) = None"
  by (simp add: ftQuery_def conditions_def searchKeyword_def truthyStr_def truthyNum_def
        browseAll_def dbWhere_def showNum_def numStr_def natDigits.simps sanitizeTagKeyword_def
        tagMeta_def trim_def isSpace_def js_def)

text \<open>
  C1 at a request with a tag and no search term while Redis is unreachable: step 1 throws
  and is caught, the source store returns one row, and the \<^verbatim>\<open>SET\<close> of the cache write is
  rejected outside any handler, so the call throws to its caller.
\<close>

theorem fallback_raises_on_cache_write:
  "shouldUseRedis (browseAll\<lparr>q_tag := Some (js ''ao'')\<rparr>) \<and>
   indexPath redisDown (browseAll\<lparr>q_tag := Some (js ''ao'')\<rparr>) =
     Inl (Rejected (js ''Connection is closed'')) \<and>
   dbPath redisDown (browseAll\<lparr>q_tag := Some (js ''ao'')\<rparr>) =
     Inr (projr (dbPath redisDown (browseAll\<lparr>q_tag := Some (js ''ao'')\<rparr>))) \<and>
   length (pg_data (projr (dbPath redisDown (browseAll\<lparr>q_tag := Some (js ''ao'')\<rparr>)))) = 1 \<and>
   out_result (findAllPublic redisDown Map.empty (browseAll\<lparr>q_tag := Some (js ''ao'')\<rparr>)) =
     Inl (Rejected (js ''Connection is closed''))"
  by (simp add: findAllPublic_def fallbackAndCache_def indexPath_def dbPath_def
        shouldUseRedis_def truthyStr_def redisDown_def browseAll_def mapRow_def
        activeItem_def inactiveItem_def js_def)

text \<open>The result of \<^verbatim>\<open>findAllPublic\<close> does not depend on the content of the Result Cache.\<close>

lemma findAllPublic_ignores_cache:
  "out_result (findAllPublic env kv q) = out_result (findAllPublic env kv' q)"
  using findAllPublic_cases [of q env kv] findAllPublic_cases [of q env kv']
  by (auto simp: fallbackAndCache_result)

text \<open>
  C2 at a request without parameters whose key holds a live entry of the Result Cache: the
  call returns the page of the source store, not the cached page, and overwrites the entry.
\<close>

theorem cached_page_not_served:
  "[cacheKey allUp browseAll \<mapsto> (cachedPage, 60)] (cacheKey allUp browseAll) = Some (cachedPage, 60) \<and>
   out_result (findAllPublic allUp [cacheKey allUp browseAll \<mapsto> (cachedPage, 60)] browseAll) =
     dbPath allUp browseAll \<and>
   dbPath allUp browseAll \<noteq> Inr cachedPage \<and>
   out_cache (findAllPublic allUp [cacheKey allUp browseAll \<mapsto> (cachedPage, 60)] browseAll)
     (cacheKey allUp browseAll) = Some (projr (dbPath allUp browseAll), 60)"
  by (simp add: findAllPublic_def fallbackAndCache_def dbPath_def
        shouldUseRedis_def searchKeyword_def truthyStr_def truthyNum_def allUp_def browseAll_def
        mapRow_def activeItem_def inactiveItem_def cachedPage_def)

section \<open>The status filter of the index path\<close>

subsection \<open>Escaping commutes with trimming and splitting\<close>









subsection \<open>Strings the scan reads as content\<close>













subsection \<open>The clauses of \<^verbatim>\<open>ftQuery\<close>\<close>


















section \<open>Properties of the Index Schema Manager\<close>

lemma createSearchIndex_cases:
  "createSearchIndex env =
     (case ft_create env of
        None \<Rightarrow> (Inr (), [CreateIndex, LogInfo, LogInfo, FullSync])
      | Some e \<Rightarrow>
          (Inr (), CreateIndex #
             (if includesStr (message e) (js ''already exists'') then [] else [LogError e])))"
  by (simp add: createSearchIndex_def createBody_def split: option.splits)

lemma createSearchIndex_returns: "fst (createSearchIndex env) = Inr ()"
  by (simp add: createSearchIndex_cases split: option.splits)

lemma ensureSearchIndex_returns: "fst (ensureSearchIndex env) = Inr ()"
  by (simp add: ensureSearchIndex_def split: prod.splits option.splits)

lemma ensureBody_create:
  "ensureBody env =
     (case ft_info env of
        None \<Rightarrow> (None, LogWarn # snd (createSearchIndex env))
      | Some infoStr \<Rightarrow>
          if \<not> includesStr infoStr (js ''rating'') \<or> \<not> includesStr infoStr (js ''location'')
          then
            (case ft_dropindex env of
               Some e \<Rightarrow> (Some e, [LogWarn, DropIndex])
             | None \<Rightarrow> (None, LogWarn # DropIndex # snd (createSearchIndex env)))
          else (None, [LogInfo]))"
proof -
  obtain acts where "createSearchIndex env = (Inr (), acts)"
    using createSearchIndex_returns [of env] by (cases "createSearchIndex env") auto
  then show ?thesis
    by (simp add: ensureBody_def split: option.splits)
qed

text \<open>
  C7, as the code has it. When \<^verbatim>\<open>FT.INFO\<close> gives nothing, \<^verbatim>\<open>ensureSearchIndex\<close> creates the
  index, and a successful creation is followed by Full Sync. When the serialized metadata
  of the existing index lacks the text \<^verbatim>\<open>rating\<close> or the text \<^verbatim>\<open>location\<close>, it drops the
  index and creates it again in the same way. When the metadata contains both, it sends
  nothing. It returns normally in every case: an error of the drop is logged, an error of
  the creation is logged unless its message contains \<^verbatim>\<open>already exists\<close>, and in both cases
  Full Sync is not run.
\<close>

theorem ensure_index_behaviour:
  "fst (ensureSearchIndex env) = Inr () \<and>
   (ft_info env = None \<longrightarrow>
      snd (ensureSearchIndex env) = LogWarn # snd (createSearchIndex env)) \<and>
   (\<forall>s. ft_info env = Some s \<and>
        (\<not> includesStr s (js ''rating'') \<or> \<not> includesStr s (js ''location'')) \<longrightarrow>
      (ft_dropindex env = None \<longrightarrow>
         snd (ensureSearchIndex env) = LogWarn # DropIndex # snd (createSearchIndex env)) \<and>
      (\<forall>e. ft_dropindex env = Some e \<longrightarrow>
         snd (ensureSearchIndex env) = [LogWarn, DropIndex, LogError e])) \<and>
   (\<forall>s. ft_info env = Some s \<and> includesStr s (js ''rating'') \<and> includesStr s (js ''location'') \<longrightarrow>
      snd (ensureSearchIndex env) = [LogInfo]) \<and>
   (ft_create env = None \<longrightarrow>
      snd (createSearchIndex env) = [CreateIndex, LogInfo, LogInfo, FullSync]) \<and>
   (\<forall>e. ft_create env = Some e \<longrightarrow>
      snd (createSearchIndex env) =
        (if includesStr (message e) (js ''already exists'') then [CreateIndex]
         else [CreateIndex, LogError e]))"
proof (intro conjI allI impI)
  show "fst (ensureSearchIndex env) = Inr ()"
    by (rule ensureSearchIndex_returns)
next
  assume "ft_info env = None"
  then show "snd (ensureSearchIndex env) = LogWarn # snd (createSearchIndex env)"
    by (simp add: ensureSearchIndex_def ensureBody_create)
next
  fix s
  assume "ft_info env = Some s \<and>
        (\<not> includesStr s (js ''rating'') \<or> \<not> includesStr s (js ''location''))"
    and "ft_dropindex env = None"
  then show "snd (ensureSearchIndex env) = LogWarn # DropIndex # snd (createSearchIndex env)"
    by (auto simp: ensureSearchIndex_def ensureBody_create)
next
  fix s e
  assume "ft_info env = Some s \<and>
        (\<not> includesStr s (js ''rating'') \<or> \<not> includesStr s (js ''location''))"
    and "ft_dropindex env = Some e"
  then show "snd (ensureSearchIndex env) = [LogWarn, DropIndex, LogError e]"
    by (auto simp: ensureSearchIndex_def ensureBody_create)
next
  fix s
  assume "ft_info env = Some s \<and> includesStr s (js ''rating'') \<and> includesStr s (js ''location'')"
  then show "snd (ensureSearchIndex env) = [LogInfo]"
    by (simp add: ensureSearchIndex_def ensureBody_create)
next
  assume "ft_create env = None"
  then show "snd (createSearchIndex env) = [CreateIndex, LogInfo, LogInfo, FullSync]"
    by (simp add: createSearchIndex_cases)
next
  fix e
  assume "ft_create env = Some e"
  then show "snd (createSearchIndex env) =
        (if includesStr (message e) (js ''already exists'') then [CreateIndex]
         else [CreateIndex, LogError e])"
    by (simp add: createSearchIndex_cases)
qed

lemma oldIndexInfo_fields:
  "includesStr oldIndexInfo (js ''rating'')" "includesStr oldIndexInfo (js ''location'')"
  "\<not> includesStr oldIndexInfo (js ''systemTags'')"
  by (simp_all add: oldIndexInfo_def js_def)

theorem ensure_index_behaviour_witness:
  "snd (ensureSearchIndex \<lparr> ft_info = None, ft_dropindex = None, ft_create = None \<rparr>) =
     [LogWarn, CreateIndex, LogInfo, LogInfo, FullSync] \<and>
   includesStr (js ''[attributes,[name,slug,price,salesCount,status]]'') (js ''rating'') = False \<and>
   snd (ensureSearchIndex
          \<lparr> ft_info = Some (js ''[attributes,[name,slug,price,salesCount,status]]''),
            ft_dropindex = None, ft_create = None \<rparr>) =
     [LogWarn, DropIndex, CreateIndex, LogInfo, LogInfo, FullSync] \<and>
   snd (ensureSearchIndex
          \<lparr> ft_info = Some (js ''[attributes,[name,slug,price,salesCount,status]]''),
            ft_dropindex = Some (Rejected (js ''Unknown Index name'')), ft_create = None \<rparr>) =
     [LogWarn, DropIndex, LogError (Rejected (js ''Unknown Index name''))] \<and>
   snd (ensureSearchIndex \<lparr> ft_info = Some oldIndexInfo, ft_dropindex = None, ft_create = None \<rparr>) =
     [LogInfo] \<and>
   snd (ensureSearchIndex
          \<lparr> ft_info = None, ft_dropindex = None,
            ft_create = Some (Rejected (js ''Index already exists'')) \<rparr>) =
     [LogWarn, CreateIndex] \<and>
   snd (ensureSearchIndex
          \<lparr> ft_info = None, ft_dropindex = None,
            ft_create = Some (Rejected (js ''OOM'')) \<rparr>) =
     [LogWarn, CreateIndex, LogError (Rejected (js ''OOM''))]"
proof -
  let ?old = "js ''[attributes,[name,slug,price,salesCount,status]]''"
  let ?e1 = "\<lparr> ft_info = None, ft_dropindex = None, ft_create = None \<rparr>"
  let ?e2 = "\<lparr> ft_info = Some ?old, ft_dropindex = None, ft_create = None \<rparr>"
  let ?e3 = "\<lparr> ft_info = Some ?old, ft_dropindex = Some (Rejected (js ''Unknown Index name'')),
              ft_create = None \<rparr>"
  let ?e4 = "\<lparr> ft_info = Some oldIndexInfo, ft_dropindex = None, ft_create = None \<rparr>"
  let ?e5 = "\<lparr> ft_info = None, ft_dropindex = None,
              ft_create = Some (Rejected (js ''Index already exists'')) \<rparr>"
  let ?e6 = "\<lparr> ft_info = None, ft_dropindex = None, ft_create = Some (Rejected (js ''OOM'')) \<rparr>"
  have r: "includesStr ?old (js ''rating'') = False"
    by (simp add: js_def)
  have m: "includesStr (message (Rejected (js ''Index already exists''))) (js ''already exists'')"
    "\<not> includesStr (message (Rejected (js ''OOM''))) (js ''already exists'')"
    by (simp_all add: message_def js_def)
  from ensure_index_behaviour [of ?e1]
  have 1: "snd (ensureSearchIndex ?e1) = [LogWarn, CreateIndex, LogInfo, LogInfo, FullSync]"
    by simp
  from ensure_index_behaviour [of ?e2] r
  have 2: "snd (ensureSearchIndex ?e2) = [LogWarn, DropIndex, CreateIndex, LogInfo, LogInfo, FullSync]"
    by simp
  from ensure_index_behaviour [of ?e3] r
  have 3: "snd (ensureSearchIndex ?e3) = [LogWarn, DropIndex, LogError (Rejected (js ''Unknown Index name''))]"
    by simp
  from ensure_index_behaviour [of ?e4] oldIndexInfo_fields
  have 4: "snd (ensureSearchIndex ?e4) = [LogInfo]"
    by simp
  from ensure_index_behaviour [of ?e5] m
  have 5: "snd (ensureSearchIndex ?e5) = [LogWarn, CreateIndex]"
    by simp
  from ensure_index_behaviour [of ?e6] m
  have 6: "snd (ensureSearchIndex ?e6) = [LogWarn, CreateIndex, LogError (Rejected (js ''OOM''))]"
    by simp
  from 1 r 2 3 4 5 6 show ?thesis
    by (intro conjI)
qed

text \<open>
  C7, as stated, at an index whose metadata names every required field but systemTags:
  the field is missing and the index is neither dropped nor created again.
\<close>

theorem ensure_index_counterexample:
  "js ''systemTags'' \<in> set schemaFields \<and>
   \<not> includesStr oldIndexInfo (js ''systemTags'') \<and>
   ensureSearchIndex \<lparr> ft_info = Some oldIndexInfo, ft_dropindex = None, ft_create = None \<rparr> =
     (Inr (), [LogInfo])"
proof -
  have "ensureSearchIndex \<lparr> ft_info = Some oldIndexInfo, ft_dropindex = None, ft_create = None \<rparr> =
     (Inr (), [LogInfo])"
    by (simp add: ensureSearchIndex_def ensureBody_def oldIndexInfo_fields)
  then show ?thesis
    by (simp add: oldIndexInfo_fields schemaFields_def)
qed

section \<open>Properties of the detail lookup\<close>

lemma fromStore_cache_read:
  "fromStore (env\<lparr>getProductDetail := g\<rparr>) x = fromStore env x"
  by (simp add: fromStore_def Let_def cong: option.case_cong if_cong)

lemma fromStore_active: "fromStore env x = Inr d \<Longrightarrow> d_status d = ACTIVE"
  by (auto simp: fromStore_def Let_def split: option.splits if_splits)

text \<open>
  C10. Whatever \<^verbatim>\<open>findOnePublic\<close> returns has the status ACTIVE. A cached product is
  returned when its status is ACTIVE; with any other status the call goes on as after a
  cache miss. After a miss, and when the source store answers, the call throws the
  not-found exception when no row has the identifier or the slug, and when the first such
  row has a status other than ACTIVE.
\<close>

theorem findOnePublic_active_only:
  "(\<forall>d. findOnePublic env x = Inr d \<longrightarrow> d_status d = ACTIVE) \<and>
   (\<forall>c. getProductDetail env x = Inr (Some c) \<and> d_status c = ACTIVE \<longrightarrow>
      findOnePublic env x = Inr c) \<and>
   (\<forall>c. getProductDetail env x = Inr (Some c) \<and> d_status c \<noteq> ACTIVE \<longrightarrow>
      findOnePublic env x = findOnePublic (env\<lparr>getProductDetail := (\<lambda>k. Inr None)\<rparr>) x) \<and>
   ((getProductDetail env x = Inr None \<or>
     (\<exists>c. getProductDetail env x = Inr (Some c) \<and> d_status c \<noteq> ACTIVE)) \<and>
    findFirst_error env = None \<longrightarrow>
      (find (\<lambda>p. r_id p = x \<or> r_slug p = x) (table env) = None \<longrightarrow>
         findOnePublic env x = Inl (NotFoundException notFoundMessage)) \<and>
      (\<forall>p. find (\<lambda>p. r_id p = x \<or> r_slug p = x) (table env) = Some p \<and> r_status p \<noteq> ACTIVE \<longrightarrow>
         findOnePublic env x = Inl (NotFoundException notFoundMessage)) \<and>
      (\<forall>p. find (\<lambda>p. r_id p = x \<or> r_slug p = x) (table env) = Some p \<and> r_status p = ACTIVE \<and>
           setProductDetail env = None \<longrightarrow>
         findOnePublic env x =
           Inr \<lparr> d_id = r_id p, d_slug = r_slug p, d_status = ACTIVE,
                 d_more = mapMore env (r_more p) \<rparr>))"
proof (intro conjI allI impI)
  fix d
  assume "findOnePublic env x = Inr d"
  then show "d_status d = ACTIVE"
    by (auto simp: findOnePublic_def fromStore_active split: sum.splits option.splits if_splits)
next
  fix c
  assume "getProductDetail env x = Inr (Some c) \<and> d_status c = ACTIVE"
  then show "findOnePublic env x = Inr c"
    by (simp add: findOnePublic_def)
next
  fix c
  assume "getProductDetail env x = Inr (Some c) \<and> d_status c \<noteq> ACTIVE"
  then show "findOnePublic env x = findOnePublic (env\<lparr>getProductDetail := (\<lambda>k. Inr None)\<rparr>) x"
    by (simp add: findOnePublic_def fromStore_cache_read)
next
  assume a: "(getProductDetail env x = Inr None \<or>
     (\<exists>c. getProductDetail env x = Inr (Some c) \<and> d_status c \<noteq> ACTIVE)) \<and>
    findFirst_error env = None"
    and f: "find (\<lambda>p. r_id p = x \<or> r_slug p = x) (table env) = None"
  from a have "findOnePublic env x = fromStore env x"
    by (auto simp: findOnePublic_def)
  with a f show "findOnePublic env x = Inl (NotFoundException notFoundMessage)"
    by (simp add: fromStore_def)
next
  fix p
  assume a: "(getProductDetail env x = Inr None \<or>
     (\<exists>c. getProductDetail env x = Inr (Some c) \<and> d_status c \<noteq> ACTIVE)) \<and>
    findFirst_error env = None"
    and f: "find (\<lambda>p. r_id p = x \<or> r_slug p = x) (table env) = Some p \<and> r_status p \<noteq> ACTIVE"
  from a have "findOnePublic env x = fromStore env x"
    by (auto simp: findOnePublic_def)
  with a f show "findOnePublic env x = Inl (NotFoundException notFoundMessage)"
    by (simp add: fromStore_def)
next
  fix p
  assume a: "(getProductDetail env x = Inr None \<or>
     (\<exists>c. getProductDetail env x = Inr (Some c) \<and> d_status c \<noteq> ACTIVE)) \<and>
    findFirst_error env = None"
    and f: "find (\<lambda>p. r_id p = x \<or> r_slug p = x) (table env) = Some p \<and> r_status p = ACTIVE \<and>
           setProductDetail env = None"
  from a have "findOnePublic env x = fromStore env x"
    by (auto simp: findOnePublic_def)
  with a f show "findOnePublic env x =
           Inr \<lparr> d_id = r_id p, d_slug = r_slug p, d_status = ACTIVE,
                 d_more = mapMore env (r_more p) \<rparr>"
    by (simp add: fromStore_def)
qed

theorem findOnePublic_active_only_witness:
  "findOnePublic staleCache (js ''ao-dai'') = Inl (NotFoundException notFoundMessage) \<and>
   findOnePublic staleCache (js ''none'') = Inl (NotFoundException notFoundMessage) \<and>
   findOnePublic staleCache (js ''2'') =
     Inr \<lparr> d_id = js ''2'', d_slug = js ''non-la'', d_status = ACTIVE, d_more = () \<rparr> \<and>
   findOnePublic staleCache (js ''non-la'') =
     Inr \<lparr> d_id = js ''2'', d_slug = js ''non-la'', d_status = ACTIVE, d_more = () \<rparr>"
proof -
  note th = findOnePublic_active_only [where env = staleCache]
  have e: "findFirst_error staleCache = None" "setProductDetail staleCache = None"
    "mapMore staleCache () = ()"
    by (simp_all add: staleCache_def)
  have g: "getProductDetail staleCache (js ''ao-dai'') =
             Inr (Some \<lparr> d_id = js ''1'', d_slug = js ''ao-dai'', d_status = js ''INACTIVE'',
                         d_more = () \<rparr>)"
    "getProductDetail staleCache (js ''none'') = Inr None"
    "getProductDetail staleCache (js ''2'') = Inr None"
    "getProductDetail staleCache (js ''non-la'') =
             Inr (Some \<lparr> d_id = js ''2'', d_slug = js ''non-la'', d_status = ACTIVE,
                         d_more = () \<rparr>)"
    by (simp_all add: staleCache_def js_def)
  have n: "js ''INACTIVE'' \<noteq> ACTIVE"
    by (simp add: ACTIVE_def js_def)
  have f: "find (\<lambda>p. r_id p = js ''ao-dai'' \<or> r_slug p = js ''ao-dai'') (table staleCache) =
             Some \<lparr> r_id = js ''1'', r_slug = js ''ao-dai'', r_status = js ''INACTIVE'', r_more = () \<rparr>"
    "find (\<lambda>p. r_id p = js ''none'' \<or> r_slug p = js ''none'') (table staleCache) = None"
    "find (\<lambda>p. r_id p = js ''2'' \<or> r_slug p = js ''2'') (table staleCache) =
             Some \<lparr> r_id = js ''2'', r_slug = js ''non-la'', r_status = ACTIVE, r_more = () \<rparr>"
    by (simp_all add: staleCache_def js_def)
  from th [where x = "js ''ao-dai''", THEN conjunct2, THEN conjunct2, THEN conjunct2] e g(1) f(1) n
  have 1: "findOnePublic staleCache (js ''ao-dai'') = Inl (NotFoundException notFoundMessage)"
    by simp
  from th [where x = "js ''none''", THEN conjunct2, THEN conjunct2, THEN conjunct2] e g(2) f(2)
  have 2: "findOnePublic staleCache (js ''none'') = Inl (NotFoundException notFoundMessage)"
    by simp
  from th [where x = "js ''2''", THEN conjunct2, THEN conjunct2, THEN conjunct2] e g(3) f(3)
  have 3: "findOnePublic staleCache (js ''2'') =
     Inr \<lparr> d_id = js ''2'', d_slug = js ''non-la'', d_status = ACTIVE, d_more = () \<rparr>"
    by simp
  from th [where x = "js ''non-la''", THEN conjunct2, THEN conjunct1] g(4)
  have 4: "findOnePublic staleCache (js ''non-la'') =
     Inr \<lparr> d_id = js ''2'', d_slug = js ''non-la'', d_status = ACTIVE, d_more = () \<rparr>"
    by simp
  from 1 2 3 4 show ?thesis
    by (intro conjI)
qed

end
